theory Spec2Isabelle
  imports Complex_Main
begin

section \<open>JavaScript numbers\<close>

text \<open>
  A JavaScript \<^verbatim>\<open>number\<close> is modelled as a real number or one of the three non-finite
  values. Arithmetic on finite values is exact (rounding, overflow and the sign of zero
  are not modelled); the non-finite values combine as IEEE 754 prescribes, and every
  comparison with \<open>NaN\<close> is false.
\<close>

datatype jsnum = Fin real | NaN | PInf | NInf

instantiation jsnum :: "{zero, plus, uminus, minus, times, abs}"
begin

definition zero_jsnum :: jsnum where
  "zero_jsnum = Fin 0"

fun plus_jsnum :: "jsnum \<Rightarrow> jsnum \<Rightarrow> jsnum" where
  "plus_jsnum (Fin a) (Fin b) = Fin (a + b)"
| "plus_jsnum NaN b = NaN"
| "plus_jsnum a NaN = NaN"
| "plus_jsnum PInf NInf = NaN"
| "plus_jsnum NInf PInf = NaN"
| "plus_jsnum PInf b = PInf"
| "plus_jsnum NInf b = NInf"
| "plus_jsnum (Fin a) PInf = PInf"
| "plus_jsnum (Fin a) NInf = NInf"

fun uminus_jsnum :: "jsnum \<Rightarrow> jsnum" where
  "uminus_jsnum (Fin a) = Fin (- a)"
| "uminus_jsnum NaN = NaN"
| "uminus_jsnum PInf = NInf"
| "uminus_jsnum NInf = PInf"

definition minus_jsnum :: "jsnum \<Rightarrow> jsnum \<Rightarrow> jsnum" where
  "minus_jsnum a b = a + (- b)"

fun times_jsnum :: "jsnum \<Rightarrow> jsnum \<Rightarrow> jsnum" where
  "times_jsnum (Fin a) (Fin b) = Fin (a * b)"
| "times_jsnum NaN b = NaN"
| "times_jsnum a NaN = NaN"
| "times_jsnum (Fin a) PInf = (if a = 0 then NaN else if 0 < a then PInf else NInf)"
| "times_jsnum (Fin a) NInf = (if a = 0 then NaN else if 0 < a then NInf else PInf)"
| "times_jsnum PInf (Fin b) = (if b = 0 then NaN else if 0 < b then PInf else NInf)"
| "times_jsnum NInf (Fin b) = (if b = 0 then NaN else if 0 < b then NInf else PInf)"
| "times_jsnum PInf PInf = PInf"
| "times_jsnum PInf NInf = NInf"
| "times_jsnum NInf PInf = NInf"
| "times_jsnum NInf NInf = PInf"

fun abs_jsnum :: "jsnum \<Rightarrow> jsnum" where
  "abs_jsnum (Fin a) = Fin \<bar>a\<bar>"
| "abs_jsnum NaN = NaN"
| "abs_jsnum PInf = PInf"
| "abs_jsnum NInf = PInf"

instance ..

end

text \<open>The operator \<^verbatim>\<open>/\<close>. A zero divisor is taken as \<open>+0\<close>.\<close>

fun js_div :: "jsnum \<Rightarrow> jsnum \<Rightarrow> jsnum" where
  "js_div (Fin a) (Fin b) =
     (if b = 0 then (if a = 0 then NaN else if 0 < a then PInf else NInf) else Fin (a / b))"
| "js_div NaN b = NaN"
| "js_div a NaN = NaN"
| "js_div (Fin a) PInf = Fin 0"
| "js_div (Fin a) NInf = Fin 0"
| "js_div PInf (Fin b) = (if 0 \<le> b then PInf else NInf)"
| "js_div NInf (Fin b) = (if 0 \<le> b then NInf else PInf)"
| "js_div PInf PInf = NaN"
| "js_div PInf NInf = NaN"
| "js_div NInf PInf = NaN"
| "js_div NInf NInf = NaN"

text \<open>The operators \<^verbatim>\<open><\<close>, \<^verbatim>\<open>>\<close>, \<^verbatim>\<open>>=\<close>, \<^verbatim>\<open>===\<close> and \<^verbatim>\<open>!==\<close> on numbers.\<close>

fun js_lt :: "jsnum \<Rightarrow> jsnum \<Rightarrow> bool" where
  "js_lt (Fin a) (Fin b) = (a < b)"
| "js_lt NaN b = False"
| "js_lt a NaN = False"
| "js_lt a NInf = False"
| "js_lt PInf b = False"
| "js_lt NInf b = True"
| "js_lt (Fin a) PInf = True"

definition js_gt :: "jsnum \<Rightarrow> jsnum \<Rightarrow> bool" where
  "js_gt a b = js_lt b a"

definition js_ge :: "jsnum \<Rightarrow> jsnum \<Rightarrow> bool" where
  "js_ge a b = (a \<noteq> NaN \<and> b \<noteq> NaN \<and> \<not> js_lt a b)"

definition strict_eq :: "jsnum \<Rightarrow> jsnum \<Rightarrow> bool" where
  "strict_eq a b = (a \<noteq> NaN \<and> b \<noteq> NaN \<and> a = b)"

definition strict_neq :: "jsnum \<Rightarrow> jsnum \<Rightarrow> bool" where
  "strict_neq a b = (\<not> strict_eq a b)"

text \<open>\<^verbatim>\<open>isNaN\<close> on a number, and the truthiness of a number (\<open>0\<close> and \<open>NaN\<close> are falsy).\<close>

definition isNaN :: "jsnum \<Rightarrow> bool" where
  "isNaN a = (a = NaN)"

definition truthy_num :: "jsnum \<Rightarrow> bool" where
  "truthy_num a = (a \<noteq> NaN \<and> a \<noteq> Fin 0)"

section \<open>The data model (types.ts)\<close>

datatype AppState = STABLE | DISMANTLING | REBUILDING | INTERACTIVE_REBUILD | REJECTING

text \<open>
  A \<^verbatim>\<open>THREE.Color\<close> is kept as the way it was built: \<^verbatim>\<open>new THREE.Color(c)\<close>, then
  any \<^verbatim>\<open>offsetHSL(h, s, l)\<close> applied to it. What the library computes from it
  (\<^verbatim>\<open>getHex\<close>) is a parameter of the functions that read a colour.
\<close>

datatype Color = NewColor jsnum | OffsetHSL Color jsnum jsnum jsnum

text \<open>\<^verbatim>\<open>VoxelData\<close>: \<open>stepIndex\<close> is optional, \<open>None\<close> is the absent field.\<close>

record VoxelData =
  vd_x :: jsnum
  vd_y :: jsnum
  vd_z :: jsnum
  vd_color :: jsnum
  vd_stepIndex :: "jsnum option"

record SimulationVoxel =
  v_id :: nat
  v_x :: jsnum
  v_y :: jsnum
  v_z :: jsnum
  v_color :: Color
  v_stepIndex :: jsnum
  originalX :: jsnum
  originalY :: jsnum
  originalZ :: jsnum
  vx :: jsnum
  vy :: jsnum
  vz :: jsnum
  rx :: jsnum
  ry :: jsnum
  rz :: jsnum
  rvx :: jsnum
  rvy :: jsnum
  rvz :: jsnum

record RebuildTarget =
  t_x :: jsnum
  t_y :: jsnum
  t_z :: jsnum
  delay :: jsnum
  isRubble :: "bool option"

record ScreenPosition =
  sp_x :: jsnum
  sp_y :: jsnum
  visible :: bool

section \<open>The engine state (VoxelEngine.ts)\<close>

text \<open>
  The two callbacks given to the constructor are modelled by a log: every call of
  \<^verbatim>\<open>onStateChange\<close> or \<^verbatim>\<open>onCountChange\<close> appends its argument.
\<close>

datatype Notification = StateChanged AppState | CountChanged nat

text \<open>
  The fields of the class that the simulation reads and writes. A \<^verbatim>\<open>Set<number>\<close> is
  the list of its elements in insertion order, without repetition, which is the order
  \<^verbatim>\<open>forEach\<close> visits them in. Two fields stand for the platform: \<open>now\<close> is the clock in
  milliseconds and \<open>timeouts\<close> holds the due time of every callback that \<^verbatim>\<open>rejectLayer\<close>
  has registered with \<^verbatim>\<open>setTimeout\<close> and that has not fired yet. The scene, the camera,
  the mesh and the renderer are not modelled.
\<close>

record VoxelEngine =
  voxels :: "SimulationVoxel list"
  rebuildTargets :: "RebuildTarget list"
  activeRebuildIndices :: "nat list"
  rejectingIndices :: "nat list"
  state :: AppState
  notifications :: "Notification list"
  now :: nat
  timeouts :: "nat list"

definition set_add :: "nat \<Rightarrow> nat list \<Rightarrow> nat list" where
  "set_add i s = (if i \<in> set s then s else s @ [i])"

definition set_delete :: "nat \<Rightarrow> nat list \<Rightarrow> nat list" where
  "set_delete i s = removeAll i s"

definition onStateChange :: "VoxelEngine \<Rightarrow> VoxelEngine" where
  "onStateChange e = e\<lparr>notifications := notifications e @ [StateChanged (state e)]\<rparr>"

definition onCountChange :: "nat \<Rightarrow> VoxelEngine \<Rightarrow> VoxelEngine" where
  "onCountChange n e = e\<lparr>notifications := notifications e @ [CountChanged n]\<rparr>"

text \<open>
  \<^verbatim>\<open>createVoxels\<close>. The argument \<open>rnd\<close> gives the results of the calls of
  \<^verbatim>\<open>Math.random()\<close> made during the call, in order: voxel \<open>i\<close> takes draw \<open>i\<close> for the
  lightness offset of its colour.
\<close>

definition createVoxel :: "(nat \<Rightarrow> real) \<Rightarrow> nat \<times> VoxelData \<Rightarrow> SimulationVoxel" where
  "createVoxel rnd iv = (case iv of (i, v) \<Rightarrow>
     \<lparr> v_id = i,
       v_x = vd_x v, v_y = vd_y v, v_z = vd_z v,
       v_color = OffsetHSL (NewColor (vd_color v)) 0 0 (Fin (rnd i) * Fin 0.05 - Fin 0.025),
       v_stepIndex = (case vd_stepIndex v of Some s \<Rightarrow> s | None \<Rightarrow> Fin (- 1)),
       originalX = vd_x v, originalY = vd_y v, originalZ = vd_z v,
       vx = 0, vy = 0, vz = 0, rx = 0, ry = 0, rz = 0,
       rvx = 0, rvy = 0, rvz = 0 \<rparr>)"

definition createVoxels :: "VoxelData list \<Rightarrow> (nat \<Rightarrow> real) \<Rightarrow> SimulationVoxel list" where
  "createVoxels data rnd = map (createVoxel rnd) (enumerate 0 data)"

text \<open>
  \<^verbatim>\<open>loadInitialModel\<close>. Its last step aims the camera at the model and touches nothing
  modelled here.
\<close>

definition loadInitialModel :: "VoxelEngine \<Rightarrow> VoxelData list \<Rightarrow> (nat \<Rightarrow> real) \<Rightarrow> VoxelEngine" where
  "loadInitialModel e data rnd =
     (let e1 = e\<lparr>voxels := createVoxels data rnd\<rparr>;
          e2 = onCountChange (length (voxels e1)) e1;
          e3 = onStateChange (e2\<lparr>state := STABLE\<rparr>)
      in e3\<lparr>activeRebuildIndices := [], rejectingIndices := [], rebuildTargets := []\<rparr>)"

text \<open>
  \<^verbatim>\<open>dismantle\<close>. Voxel \<open>i\<close> takes the six draws \<open>6 i, ..., 6 i + 5\<close>, in the order of the
  assignments.
\<close>

definition explode :: "(nat \<Rightarrow> real) \<Rightarrow> nat \<times> SimulationVoxel \<Rightarrow> SimulationVoxel" where
  "explode rnd iv = (case iv of (i, v) \<Rightarrow>
     v\<lparr> vx := (Fin (rnd (6 * i)) - Fin 0.5) * Fin 2,
        vy := Fin (rnd (6 * i + 1)) * Fin 1.5 + Fin 0.5,
        vz := (Fin (rnd (6 * i + 2)) - Fin 0.5) * Fin 2,
        rvx := (Fin (rnd (6 * i + 3)) - Fin 0.5) * Fin 0.4,
        rvy := (Fin (rnd (6 * i + 4)) - Fin 0.5) * Fin 0.4,
        rvz := (Fin (rnd (6 * i + 5)) - Fin 0.5) * Fin 0.4 \<rparr>)"

definition originalTarget :: "SimulationVoxel \<Rightarrow> RebuildTarget" where
  "originalTarget v =
     \<lparr> t_x = originalX v, t_y = originalY v, t_z = originalZ v,
       delay = 0, isRubble = Some False \<rparr>"

definition dismantle :: "VoxelEngine \<Rightarrow> (nat \<Rightarrow> real) \<Rightarrow> VoxelEngine" where
  "dismantle e rnd =
     (if state e \<noteq> STABLE then e
      else
        let e1 = onStateChange (e\<lparr>state := DISMANTLING\<rparr>);
            e2 = e1\<lparr>activeRebuildIndices := [], rejectingIndices := []\<rparr>;
            e3 = e2\<lparr>rebuildTargets := map originalTarget (voxels e2)\<rparr>
        in e3\<lparr>voxels := map (explode rnd) (enumerate 0 (voxels e3))\<rparr>)"

text \<open>
  \<^verbatim>\<open>rebuildLayer\<close>. The loop runs over the voxels with their indices and carries the
  engine and the counter \<open>found\<close>.
\<close>

fun rebuildLoop ::
  "jsnum \<Rightarrow> (nat \<times> SimulationVoxel) list \<Rightarrow> VoxelEngine \<times> nat \<Rightarrow> VoxelEngine \<times> nat" where
  "rebuildLoop stepIndex [] (e, found) = (e, found)"
| "rebuildLoop stepIndex ((i, v) # ivs) (e, found) =
     (if strict_eq (v_stepIndex v) stepIndex
      then rebuildLoop stepIndex ivs
             (e\<lparr>activeRebuildIndices := set_add i (activeRebuildIndices e),
                rejectingIndices := set_delete i (rejectingIndices e)\<rparr>, found + 1)
      else rebuildLoop stepIndex ivs (e, found))"

definition rebuildLayer :: "VoxelEngine \<Rightarrow> jsnum \<Rightarrow> VoxelEngine \<times> bool" where
  "rebuildLayer e stepIndex =
     (let e1 = onStateChange (e\<lparr>state := INTERACTIVE_REBUILD\<rparr>);
          (e2, found) = rebuildLoop stepIndex (enumerate 0 (voxels e1)) (e1, 0)
      in (e2, 0 < found))"

text \<open>
  \<^verbatim>\<open>rejectLayer\<close>. The loop carries the engine and the number \<open>k\<close> of draws taken so
  far: a matching voxel takes two. The callback given to \<^verbatim>\<open>setTimeout\<close> is
  \<open>rejectTimeout\<close>; the call registers it for 800 ms after the current time.
\<close>

fun rejectLoop ::
  "jsnum \<Rightarrow> (nat \<Rightarrow> real) \<Rightarrow> (nat \<times> SimulationVoxel) list \<Rightarrow> nat \<Rightarrow> VoxelEngine \<Rightarrow> VoxelEngine" where
  "rejectLoop stepIndex rnd [] k e = e"
| "rejectLoop stepIndex rnd ((i, v) # ivs) k e =
     (if strict_eq (v_stepIndex v) stepIndex
      then rejectLoop stepIndex rnd ivs (k + 2)
             (e\<lparr>rejectingIndices := set_add i (rejectingIndices e),
                voxels := (voxels e)[i := v\<lparr> vy := Fin 0.5,
                                            vx := (Fin (rnd k) - Fin 0.5) * Fin 0.5,
                                            vz := (Fin (rnd (k + 1)) - Fin 0.5) * Fin 0.5 \<rparr>]\<rparr>)
      else rejectLoop stepIndex rnd ivs k e)"

definition rejectLayer :: "VoxelEngine \<Rightarrow> jsnum \<Rightarrow> (nat \<Rightarrow> real) \<Rightarrow> VoxelEngine" where
  "rejectLayer e stepIndex rnd =
     (let e1 = onStateChange (e\<lparr>state := REJECTING\<rparr>);
          e2 = rejectLoop stepIndex rnd (enumerate 0 (voxels e1)) 0 e1
      in e2\<lparr>timeouts := timeouts e2 @ [now e2 + 800]\<rparr>)"

definition rejectTimeout :: "VoxelEngine \<Rightarrow> VoxelEngine" where
  "rejectTimeout e =
     (if state e = REJECTING
      then (onStateChange (e\<lparr>state := INTERACTIVE_REBUILD\<rparr>))\<lparr>rejectingIndices := []\<rparr>
      else e)"

text \<open>
  The platform's timer queue: \<open>elapse d\<close> lets \<open>d\<close> milliseconds pass with no command in
  between, running every registered callback that falls due, earliest first (all delays
  are equal, so that is the order of registration).
\<close>

definition elapse :: "nat \<Rightarrow> VoxelEngine \<Rightarrow> VoxelEngine" where
  "elapse d e =
     (let t = now e + d;
          due = filter (\<lambda>u. u \<le> t) (timeouts e);
          e1 = e\<lparr>now := t, timeouts := filter (\<lambda>u. \<not> u \<le> t) (timeouts e)\<rparr>
      in fold (\<lambda>u. rejectTimeout) due e1)"

section \<open>The physics of one frame\<close>

text \<open>
  \<^verbatim>\<open>CONFIG.FLOOR_Y\<close> comes from a module that is not among the sources; it is the
  parameter \<open>FLOOR_Y\<close> of the functions that use it.
\<close>

datatype js_error = TypeError | SyntaxError | Error string

definition rubble :: "jsnum \<Rightarrow> SimulationVoxel \<Rightarrow> SimulationVoxel" where
  "rubble FLOOR_Y v =
     (let v1 = v\<lparr>vy := vy v - Fin 0.04\<rparr>;
          v2 = v1\<lparr>v_x := v_x v1 + vx v1, v_y := v_y v1 + vy v1, v_z := v_z v1 + vz v1\<rparr>;
          v3 = v2\<lparr>rx := rx v2 + rvx v2, ry := ry v2 + rvy v2, rz := rz v2 + rvz v2\<rparr>;
          v4 = v3\<lparr>vx := vx v3 * Fin 0.98, vz := vz v3 * Fin 0.98, vy := vy v3 * Fin 0.99\<rparr>
      in if js_lt (v_y v4) (FLOOR_Y + Fin 0.5)
         then
           let v5 = v4\<lparr>v_y := FLOOR_Y + Fin 0.5,
                       vy := vy v4 * Fin (- 0.5),
                       vx := vx v4 * Fin 0.8,
                       vz := vz v4 * Fin 0.8,
                       rvx := rvx v4 * Fin 0.8, rvy := rvy v4 * Fin 0.8, rvz := rvz v4 * Fin 0.8\<rparr>
           in if js_lt (abs (vy v5)) (Fin 0.1) then v5\<lparr>vy := 0\<rparr> else v5
         else v4)"

definition rubblePhase :: "jsnum \<Rightarrow> VoxelEngine \<Rightarrow> VoxelEngine" where
  "rubblePhase FLOOR_Y e =
     e\<lparr>voxels :=
         map (\<lambda>(i, v).
               let isActive = (i \<in> set (activeRebuildIndices e));
                   isRejecting = (i \<in> set (rejectingIndices e))
               in if \<not> isActive \<and> \<not> isRejecting then rubble FLOOR_Y v else v)
             (enumerate 0 (voxels e))\<rparr>"

text \<open>
  The target of voxel \<open>i\<close>: \<^verbatim>\<open>this.rebuildTargets[i] || { x: v.originalX, ... }\<close>. An
  index past the end of the array reads \<^verbatim>\<open>undefined\<close>, which is falsy.
\<close>

definition flightTarget :: "VoxelEngine \<Rightarrow> nat \<Rightarrow> SimulationVoxel \<Rightarrow> jsnum \<times> jsnum \<times> jsnum" where
  "flightTarget e i v =
     (if i < length (rebuildTargets e)
      then (t_x (rebuildTargets e ! i), t_y (rebuildTargets e ! i), t_z (rebuildTargets e ! i))
      else (originalX v, originalY v, originalZ v))"

definition flight :: "jsnum \<times> jsnum \<times> jsnum \<Rightarrow> SimulationVoxel \<Rightarrow> SimulationVoxel" where
  "flight t v = (case t of (tx, ty, tz) \<Rightarrow>
     let dx = tx - v_x v;
         dy = ty - v_y v;
         dz = tz - v_z v;
         distSq = dx * dx + dy * dy + dz * dz
     in if js_gt distSq (Fin 0.05)
        then
          let speed = Fin 0.12
          in v\<lparr>v_x := v_x v + dx * speed,
               v_y := v_y v + dy * speed,
               v_z := v_z v + dz * speed,
               rx := rx v + (0 - rx v) * speed,
               ry := ry v + (0 - ry v) * speed,
               rz := rz v + (0 - rz v) * speed\<rparr>
        else if strict_neq (v_x v) tx
        then v\<lparr>v_x := tx, v_y := ty, v_z := tz, rx := 0, ry := 0, rz := 0\<rparr>
        else v)"

text \<open>
  The two loops over a set of indices. \<^verbatim>\<open>this.voxels[i]\<close> past the end of the array is
  \<^verbatim>\<open>undefined\<close> and reading a field of it throws a TypeError; the model then returns
  the error alone.
\<close>

fun flightLoop :: "nat list \<Rightarrow> VoxelEngine \<Rightarrow> js_error + VoxelEngine" where
  "flightLoop [] e = Inr e"
| "flightLoop (i # rest) e =
     (if i < length (voxels e)
      then
        let v = voxels e ! i
        in flightLoop rest (e\<lparr>voxels := (voxels e)[i := flight (flightTarget e i v) v]\<rparr>)
      else Inl TypeError)"

definition bounce :: "jsnum \<Rightarrow> SimulationVoxel \<Rightarrow> SimulationVoxel" where
  "bounce FLOOR_Y v =
     (let v1 = v\<lparr>vy := vy v - Fin 0.04\<rparr>;
          v2 = v1\<lparr>v_x := v_x v1 + vx v1, v_y := v_y v1 + vy v1, v_z := v_z v1 + vz v1\<rparr>
      in if js_lt (v_y v2) (FLOOR_Y + Fin 0.5)
         then v2\<lparr>v_y := FLOOR_Y + Fin 0.5, vy := vy v2 * Fin (- 0.4)\<rparr>
         else v2)"

fun bounceLoop :: "jsnum \<Rightarrow> nat list \<Rightarrow> VoxelEngine \<Rightarrow> js_error + VoxelEngine" where
  "bounceLoop FLOOR_Y [] e = Inr e"
| "bounceLoop FLOOR_Y (i # rest) e =
     (if i < length (voxels e)
      then bounceLoop FLOOR_Y rest (e\<lparr>voxels := (voxels e)[i := bounce FLOOR_Y (voxels e ! i)]\<rparr>)
      else Inl TypeError)"

text \<open>\<^verbatim>\<open>updatePhysics\<close>; the counter \<^verbatim>\<open>movingCount\<close> is written and never read.\<close>

definition updatePhysics :: "jsnum \<Rightarrow> VoxelEngine \<Rightarrow> js_error + VoxelEngine" where
  "updatePhysics FLOOR_Y e =
     (if state e = STABLE then Inr e
      else
        let e1 = rubblePhase FLOOR_Y e
        in case (if state e1 = INTERACTIVE_REBUILD \<or> state e1 = REJECTING
                 then flightLoop (activeRebuildIndices e1) e1
                 else Inr e1) of
             Inl err \<Rightarrow> Inl err
           | Inr e2 \<Rightarrow>
               if state e2 = REJECTING
               then bounceLoop FLOOR_Y (rejectingIndices e2) e2
               else Inr e2)"

text \<open>\<open>ticks n\<close> runs \<open>n\<close> frames, stopping at the first error.\<close>

fun ticks :: "nat \<Rightarrow> jsnum \<Rightarrow> VoxelEngine \<Rightarrow> js_error + VoxelEngine" where
  "ticks 0 FLOOR_Y e = Inr e"
| "ticks (Suc n) FLOOR_Y e =
     (case updatePhysics FLOOR_Y e of Inl err \<Rightarrow> Inl err | Inr e' \<Rightarrow> ticks n FLOOR_Y e')"

section \<open>The centroid query\<close>

text \<open>
  \<^verbatim>\<open>getStepCentroids\<close>. The object \<^verbatim>\<open>sums\<close> (here \<open>sms\<close>) is a map from keys to the running sums and
  the count; a key is the number whose decimal form names the property. The camera's
  projection \<^verbatim>\<open>vec.project(this.camera)\<close> and the size of the container are parameters.
  \<open>stepCount\<close> is a natural number, as the length of an array is.
\<close>

type_synonym step_sums = "jsnum \<Rightarrow> (jsnum \<times> jsnum \<times> jsnum \<times> nat) option"

definition addToSums :: "SimulationVoxel \<Rightarrow> step_sums \<Rightarrow> step_sums" where
  "addToSums v sms =
     (if js_ge (v_stepIndex v) 0
      then
        (case (case sms (v_stepIndex v) of None \<Rightarrow> (0, 0, 0, 0) | Some s \<Rightarrow> s) of
           (sx, sy, sz, c) \<Rightarrow>
             sms(v_stepIndex v \<mapsto> (sx + v_x v, sy + v_y v, sz + v_z v, c + 1)))
      else sms)"

definition placeholder :: ScreenPosition where
  "placeholder = \<lparr> sp_x = 0, sp_y = 0, visible = False \<rparr>"

definition projected ::
  "(jsnum \<times> jsnum \<times> jsnum \<Rightarrow> jsnum \<times> jsnum \<times> jsnum) \<Rightarrow> jsnum \<Rightarrow> jsnum \<Rightarrow>
   jsnum \<times> jsnum \<times> jsnum \<Rightarrow> ScreenPosition" where
  "projected project clientWidth clientHeight c =
     (case project c of (px, py, pz) \<Rightarrow>
        \<lparr> sp_x = (px * Fin 0.5 + Fin 0.5) * clientWidth,
          sp_y = (- (py * Fin 0.5) + Fin 0.5) * clientHeight,
          visible = (js_lt pz (Fin 1) \<and> js_lt (abs px) (Fin 1.1) \<and> js_lt (abs py) (Fin 1.1)) \<rparr>)"

definition centroidEntry ::
  "(jsnum \<times> jsnum \<times> jsnum \<Rightarrow> jsnum \<times> jsnum \<times> jsnum) \<Rightarrow> jsnum \<Rightarrow> jsnum \<Rightarrow>
   (jsnum \<times> jsnum \<times> jsnum \<times> nat) option \<Rightarrow> ScreenPosition" where
  "centroidEntry project clientWidth clientHeight s =
     (case s of
        None \<Rightarrow> placeholder
      | Some (sx, sy, sz, c) \<Rightarrow>
          if 0 < c
          then projected project clientWidth clientHeight
                 (js_div sx (Fin (real c)), js_div sy (Fin (real c)), js_div sz (Fin (real c)))
          else placeholder)"

definition getStepCentroids ::
  "VoxelEngine \<Rightarrow> nat \<Rightarrow> (jsnum \<times> jsnum \<times> jsnum \<Rightarrow> jsnum \<times> jsnum \<times> jsnum) \<Rightarrow> jsnum \<Rightarrow> jsnum \<Rightarrow>
   ScreenPosition list" where
  "getStepCentroids e stepCount project clientWidth clientHeight =
     (let sms = fold addToSums (voxels e) Map.empty
      in map (\<lambda>i. centroidEntry project clientWidth clientHeight (sms (Fin (real i))))
           [0..<stepCount])"

text \<open>
  The query as a command, in the state-passing form of the other commands: the engine
  after the call and the list returned. The body of \<^verbatim>\<open>getStepCentroids\<close> assigns to its
  locals \<^verbatim>\<open>centroids\<close>, \<^verbatim>\<open>sums\<close> and \<^verbatim>\<open>vec\<close> only, so the engine after the call is the engine
  it was called on.
\<close>

definition queryStepCentroids ::
  "VoxelEngine \<Rightarrow> nat \<Rightarrow> (jsnum \<times> jsnum \<times> jsnum \<Rightarrow> jsnum \<times> jsnum \<times> jsnum) \<Rightarrow> jsnum \<Rightarrow> jsnum \<Rightarrow>
   VoxelEngine \<times> ScreenPosition list" where
  "queryStepCentroids e stepCount project clientWidth clientHeight =
     (e, getStepCentroids e stepCount project clientWidth clientHeight)"

section \<open>Export and import of JSON\<close>

text \<open>
  A JSON text is modelled by the value \<^verbatim>\<open>JSON.parse\<close> returns for it. An object is the
  list of its properties, each key once. A string is the list of its code units, of which
  only those below 256 are modelled.
\<close>

datatype json =
    JNull
  | JBool bool
  | JNum jsnum
  | JStr string
  | JArr "json list"
  | JObj "(string \<times> json) list"

text \<open>
  \<^verbatim>\<open>Color.getHexString()\<close> is \<^verbatim>\<open>('000000' + this.getHex().toString(16)).slice(-6)\<close>;
  \<open>getHex\<close>, the library's reading of a colour as an integer, is a parameter.
\<close>

definition hexDigit :: "nat \<Rightarrow> char" where
  "hexDigit d = ''0123456789abcdef'' ! d"

fun toString16 :: "nat \<Rightarrow> string" where
  "toString16 n = (if n < 16 then [hexDigit n] else toString16 (n div 16) @ [hexDigit (n mod 16)])"

declare toString16.simps [simp del]

definition slice_last :: "nat \<Rightarrow> string \<Rightarrow> string" where
  "slice_last k s = drop (length s - k) s"

definition getHexString :: "(Color \<Rightarrow> nat) \<Rightarrow> Color \<Rightarrow> string" where
  "getHexString getHex c = slice_last 6 (''000000'' @ toString16 (getHex c))"

text \<open>
  \<^verbatim>\<open>getJsonData\<close>. \<^verbatim>\<open>JSON.stringify\<close> writes a number that is not finite as
  \<^verbatim>\<open>null\<close>, so that is what the text holds for it.
\<close>

definition stringifyNumber :: "jsnum \<Rightarrow> json" where
  "stringifyNumber n = (case n of Fin r \<Rightarrow> JNum (Fin r) | _ \<Rightarrow> JNull)"

definition voxelJson :: "(Color \<Rightarrow> nat) \<Rightarrow> SimulationVoxel \<Rightarrow> json" where
  "voxelJson getHex v =
     JObj [(''x'', stringifyNumber (v_x v)),
           (''y'', stringifyNumber (v_y v)),
           (''z'', stringifyNumber (v_z v)),
           (''color'', JStr (CHR ''#'' # getHexString getHex (v_color v))),
           (''stepIndex'', stringifyNumber (v_stepIndex v))]"

definition getJsonData :: "(Color \<Rightarrow> nat) \<Rightarrow> VoxelEngine \<Rightarrow> json" where
  "getJsonData getHex e = JArr (map (voxelJson getHex) (voxels e))"

text \<open>
  Reading a property \<^verbatim>\<open>v.k\<close> of a parsed value: it throws on \<^verbatim>\<open>null\<close>, finds the
  property of an object, and is \<^verbatim>\<open>undefined\<close> (\<open>None\<close>) otherwise; no prototype has one
  of the keys read here.
\<close>

fun getProp :: "json \<Rightarrow> string \<Rightarrow> js_error + json option" where
  "getProp JNull k = Inl TypeError"
| "getProp (JObj kvs) k = Inr (map_of kvs k)"
| "getProp v k = Inr None"

fun truthy :: "json option \<Rightarrow> bool" where
  "truthy None = False"
| "truthy (Some JNull) = False"
| "truthy (Some (JBool b)) = b"
| "truthy (Some (JNum n)) = truthy_num n"
| "truthy (Some (JStr s)) = (s \<noteq> [])"
| "truthy (Some (JArr vs)) = True"
| "truthy (Some (JObj kvs)) = True"

text \<open>
  \<^verbatim>\<open>Number(v)\<close>. The conversion of a string, an array or an object runs through
  the language's string-to-number grammar; it is the parameter \<open>toNum\<close>.
\<close>

fun Number :: "(json \<Rightarrow> jsnum) \<Rightarrow> json option \<Rightarrow> jsnum" where
  "Number toNum None = NaN"
| "Number toNum (Some JNull) = Fin 0"
| "Number toNum (Some (JBool b)) = (if b then Fin 1 else Fin 0)"
| "Number toNum (Some (JNum n)) = n"
| "Number toNum (Some v) = toNum v"

text \<open>
  \<^verbatim>\<open>parseInt(s, 16)\<close>: leading white space is dropped, then a sign, then a prefix
  \<^verbatim>\<open>0x\<close> or \<^verbatim>\<open>0X\<close>; the value is that of the longest run of hexadecimal digits that
  follows, and \<open>NaN\<close> when there is none.
\<close>

definition isWhiteSpace :: "char \<Rightarrow> bool" where
  "isWhiteSpace c = (of_char c \<in> {9, 10, 11, 12, 13, 32, 160 :: nat})"

definition hexValue :: "char \<Rightarrow> nat option" where
  "hexValue c =
     (let n = of_char c :: nat
      in if 48 \<le> n \<and> n \<le> 57 then Some (n - 48)
         else if 97 \<le> n \<and> n \<le> 102 then Some (n - 87)
         else if 65 \<le> n \<and> n \<le> 70 then Some (n - 55)
         else None)"

definition hexNumber :: "string \<Rightarrow> nat" where
  "hexNumber z = foldl (\<lambda>a c. 16 * a + (case hexValue c of Some d \<Rightarrow> d | None \<Rightarrow> 0)) 0 z"

definition parseInt16 :: "string \<Rightarrow> jsnum" where
  "parseInt16 s =
     (let s1 = dropWhile isWhiteSpace s;
          negative = (take 1 s1 = ''-'');
          s2 = (if take 1 s1 = ''-'' \<or> take 1 s1 = ''+'' then drop 1 s1 else s1);
          s3 = (if take 2 s2 = ''0x'' \<or> take 2 s2 = ''0X'' then drop 2 s2 else s2);
          z = takeWhile (\<lambda>c. hexValue c \<noteq> None) s3
      in if z = [] then NaN
         else if negative then Fin (- real (hexNumber z))
         else Fin (real (hexNumber z)))"

text \<open>The body of the \<^verbatim>\<open>map\<close> in \<^verbatim>\<open>handleJsonImport\<close> (App.tsx), for one entry.\<close>

definition importColor :: "json option \<Rightarrow> jsnum" where
  "importColor colorVal =
     (let colorInt =
        (case colorVal of
           Some (JStr s) \<Rightarrow> parseInt16 (if take 1 s = ''#'' then drop 1 s else s)
         | Some (JNum n) \<Rightarrow> n
         | _ \<Rightarrow> Fin 13421772)
      in if isNaN colorInt then Fin 13421772 else colorInt)"

definition orZero :: "jsnum \<Rightarrow> jsnum" where
  "orZero n = (if truthy_num n then n else Fin 0)"

definition importEntry :: "(json \<Rightarrow> jsnum) \<Rightarrow> json \<Rightarrow> js_error + VoxelData" where
  "importEntry toNum v =
     (case getProp v ''c'' of
        Inl err \<Rightarrow> Inl err
      | Inr c \<Rightarrow>
          (case (if truthy c then Inr c else getProp v ''color'') of
             Inl err \<Rightarrow> Inl err
           | Inr colorVal \<Rightarrow>
               (case (getProp v ''x'', getProp v ''y'', getProp v ''z'', getProp v ''stepIndex'') of
                  (Inr px, Inr py, Inr pz, Inr ps) \<Rightarrow>
                    Inr \<lparr> vd_x = orZero (Number toNum px),
                          vd_y = orZero (Number toNum py),
                          vd_z = orZero (Number toNum pz),
                          vd_color = importColor colorVal,
                          vd_stepIndex =
                            Some (case ps of None \<Rightarrow> Fin (- 1) | Some j \<Rightarrow> Number toNum (Some j)) \<rparr>
                | _ \<Rightarrow> Inl TypeError)))"

fun importEntries :: "(json \<Rightarrow> jsnum) \<Rightarrow> json list \<Rightarrow> js_error + VoxelData list" where
  "importEntries toNum [] = Inr []"
| "importEntries toNum (v # vs) =
     (case importEntry toNum v of
        Inl err \<Rightarrow> Inl err
      | Inr d \<Rightarrow>
          (case importEntries toNum vs of Inl err \<Rightarrow> Inl err | Inr ds \<Rightarrow> Inr (d # ds)))"

text \<open>
  \<open>importVoxelData\<close> is the \<^verbatim>\<open>try\<close> block up to the call of the engine; \<open>parsed\<close> is the
  outcome of \<^verbatim>\<open>JSON.parse(jsonStr)\<close>, an error when the text is not JSON.
\<close>

definition importVoxelData :: "(json \<Rightarrow> jsnum) \<Rightarrow> js_error + json \<Rightarrow> js_error + VoxelData list" where
  "importVoxelData toNum parsed =
     (case parsed of
        Inl err \<Rightarrow> Inl err
      | Inr (JArr vs) \<Rightarrow> importEntries toNum vs
      | Inr _ \<Rightarrow> Inl (Error ''JSON must be an array''))"

text \<open>
  \<^verbatim>\<open>handleJsonImport\<close>: the \<^verbatim>\<open>catch\<close> branch reports the failure and leaves the
  engine as it is.
\<close>

definition handleJsonImport ::
  "(json \<Rightarrow> jsnum) \<Rightarrow> VoxelEngine \<Rightarrow> js_error + json \<Rightarrow> (nat \<Rightarrow> real) \<Rightarrow> VoxelEngine" where
  "handleJsonImport toNum e parsed rnd =
     (case importVoxelData toNum parsed of
        Inl err \<Rightarrow> e
      | Inr data \<Rightarrow> loadInitialModel e data rnd)"

section \<open>Initial state, example inputs and auxiliary notions\<close>

text \<open>The fields as the class initialises them, before the first model is loaded.\<close>

definition newEngine :: VoxelEngine where
  "newEngine = \<lparr> voxels = [], rebuildTargets = [], activeRebuildIndices = [], rejectingIndices = [],
          state = STABLE, notifications = [], now = 0, timeouts = [] \<rparr>"

text \<open>A small model used where a property is instantiated: two tagged voxels and one without a tag.\<close>

definition demoData :: "VoxelData list" where
  "demoData =
     [\<lparr> vd_x = Fin 0, vd_y = Fin 5, vd_z = Fin 0, vd_color = Fin 255, vd_stepIndex = Some (Fin 0) \<rparr>,
      \<lparr> vd_x = Fin 1, vd_y = Fin 5, vd_z = Fin 0, vd_color = Fin 65280, vd_stepIndex = Some (Fin 1) \<rparr>,
      \<lparr> vd_x = Fin 2, vd_y = Fin 5, vd_z = Fin 0, vd_color = Fin 65280, vd_stepIndex = None \<rparr>]"

definition demoRnd :: "nat \<Rightarrow> real" where
  "demoRnd k = 1 / 4"

definition demo :: VoxelEngine where
  "demo = loadInitialModel newEngine demoData demoRnd"

text \<open>
  The indices of the voxels that carry the tag \<open>T\<close>, in the sense of the comparison
  \<^verbatim>\<open>v.stepIndex === T\<close> the commands make.
\<close>

definition carriers :: "VoxelEngine \<Rightarrow> jsnum \<Rightarrow> nat list" where
  "carriers e T = filter (\<lambda>i. strict_eq (v_stepIndex (voxels e ! i)) T) [0..<length (voxels e)]"

definition matching :: "jsnum \<Rightarrow> (nat \<times> SimulationVoxel) list \<Rightarrow> nat list" where
  "matching T ivs = map fst (filter (\<lambda>iv. strict_eq (v_stepIndex (snd iv)) T) ivs)"

text \<open>
  Every index in the two sets is an index of a voxel, and no index is listed twice. The
  commands keep this, and under it a frame raises no error (lemmas \<open>wellFormed_...\<close> and \<open>updatePhysics_total\<close> below).
\<close>

definition wellFormed :: "VoxelEngine \<Rightarrow> bool" where
  "wellFormed e =
     (list_all (\<lambda>i. i < length (voxels e)) (activeRebuildIndices e) \<and>
      list_all (\<lambda>i. i < length (voxels e)) (rejectingIndices e) \<and>
      distinct (activeRebuildIndices e) \<and> distinct (rejectingIndices e))"

text \<open>
  What one frame does to voxel \<open>j\<close>, read off the three loops of \<^verbatim>\<open>updatePhysics\<close>: the
  rubble branch, then the flight branch, then the bounce branch, each under its
  condition (lemma \<open>updatePhysics_nth\<close> below shows that the loops compute this).
\<close>

definition frameVoxel :: "jsnum \<Rightarrow> VoxelEngine \<Rightarrow> nat \<Rightarrow> SimulationVoxel" where
  "frameVoxel F e j =
     (let v0 = voxels e ! j;
          v1 = (if j \<notin> set (activeRebuildIndices e) \<and> j \<notin> set (rejectingIndices e)
                then rubble F v0 else v0);
          v2 = (if (state e = INTERACTIVE_REBUILD \<or> state e = REJECTING) \<and>
                   j \<in> set (activeRebuildIndices e)
                then flight (flightTarget e j v1) v1 else v1)
      in if state e = REJECTING \<and> j \<in> set (rejectingIndices e) then bounce F v2 else v2)"


text \<open>
  A run in which a second rejection follows the first within its delay: \<^verbatim>\<open>rejectLayer(0)\<close>
  at 0 ms, \<^verbatim>\<open>rebuildLayer(0)\<close> at 100 ms, \<^verbatim>\<open>rejectLayer(1)\<close> at 200 ms; \<open>staleRun\<close> is
  the engine at 799 ms.
\<close>

definition staleRun :: VoxelEngine where
  "staleRun =
     elapse 599 (rejectLayer (elapse 100 (fst (rebuildLayer (elapse 100 (rejectLayer demo (Fin 0) demoRnd)) (Fin 0))))
       (Fin 1) demoRnd)"

text \<open>
  A run without \<^verbatim>\<open>dismantle\<close>: \<^verbatim>\<open>rebuildLayer(0)\<close> on the example model, one frame with the
  floor at -12 (the voxels of the other tags fall as rubble), then \<^verbatim>\<open>rebuildLayer(1)\<close>.
  \<open>stuckAt\<close> describes voxel 1 from then on: in flight, straight below its target.
\<close>

definition stuckRun :: VoxelEngine where
  "stuckRun =
     (case updatePhysics (Fin (- 12)) (fst (rebuildLayer demo (Fin 0))) of
        Inr e \<Rightarrow> fst (rebuildLayer e (Fin 1))
      | Inl err \<Rightarrow> demo)"

definition stuckAt :: "VoxelEngine \<Rightarrow> bool" where
  "stuckAt e =
     (wellFormed e \<and> state e = INTERACTIVE_REBUILD \<and> 1 \<in> set (activeRebuildIndices e) \<and>
      1 < length (voxels e) \<and> rebuildTargets e = [] \<and>
      v_x (voxels e ! 1) = Fin 1 \<and> v_y (voxels e ! 1) = Fin (124 / 25) \<and> v_z (voxels e ! 1) = Fin 0 \<and>
      originalX (voxels e ! 1) = Fin 1 \<and> originalY (voxels e ! 1) = Fin 5 \<and>
      originalZ (voxels e ! 1) = Fin 0)"

text \<open>
  For the centroid query: the voxels that carry tag \<open>i\<close> (the tag is the key \<^verbatim>\<open>sums[i]\<close> is
  read under), the average of a list of numbers as the query computes it (the sum from the
  left, starting at 0, over the count), and the average position of a group of voxels.
\<close>

definition carrying :: "VoxelEngine \<Rightarrow> nat \<Rightarrow> SimulationVoxel list" where
  "carrying e i = filter (\<lambda>v. v_stepIndex v = Fin (real i)) (voxels e)"

definition averageOf :: "jsnum list \<Rightarrow> jsnum" where
  "averageOf xs = js_div (foldl (+) 0 xs) (Fin (real (length xs)))"

definition centroidOf :: "SimulationVoxel list \<Rightarrow> jsnum \<times> jsnum \<times> jsnum" where
  "centroidOf ms = (averageOf (map v_x ms), averageOf (map v_y ms), averageOf (map v_z ms))"


definition field :: "json \<Rightarrow> string \<Rightarrow> json option" where
  "field v k = (case getProp v k of Inr p \<Rightarrow> p | Inl err \<Rightarrow> None)"

definition colorValue :: "json \<Rightarrow> json option" where
  "colorValue v = (if truthy (field v ''c'') then field v ''c'' else field v ''color'')"



definition noNumber :: "json \<Rightarrow> jsnum" where
  "noNumber v = NaN"

text \<open>
  For the round trip: the finite numbers; the stores whose voxels have finite coordinates
  and tags; the voxel spec that the export of a voxel is read back as; a stand-in for
  \<^verbatim>\<open>Color.getHex\<close> (the integer the colour was built from, below \<open>2^24\<close>, ignoring the
  lightness offset); and the store that the import of \<^verbatim>\<open>[{"x": 1e999}]\<close> leaves, whose
  voxel has the coordinate \<^verbatim>\<open>Infinity\<close>.
\<close>

fun isFinite :: "jsnum \<Rightarrow> bool" where
  "isFinite (Fin r) = True"
| "isFinite n = False"

definition finiteStore :: "VoxelEngine \<Rightarrow> bool" where
  "finiteStore e =
     list_all (\<lambda>v. isFinite (v_x v) \<and> isFinite (v_y v) \<and> isFinite (v_z v) \<and>
                    isFinite (v_stepIndex v)) (voxels e)"

fun demoGetHex :: "Color \<Rightarrow> nat" where
  "demoGetHex (NewColor n) = (case n of Fin r \<Rightarrow> nat \<lfloor>r\<rfloor> mod 16777216 | _ \<Rightarrow> 0)"
| "demoGetHex (OffsetHSL c h s l) = demoGetHex c"

definition infStore :: VoxelEngine where
  "infStore = handleJsonImport noNumber newEngine (Inr (JArr [JObj [(''x'', JNum PInf)]])) demoRnd"

definition exported :: "(Color \<Rightarrow> nat) \<Rightarrow> SimulationVoxel \<Rightarrow> VoxelData" where
  "exported getHex v =
     \<lparr> vd_x = v_x v, vd_y = v_y v, vd_z = v_z v,
       vd_color = Fin (real (getHex (v_color v))),
       vd_stepIndex = Some (v_stepIndex v) \<rparr>"

text \<open>
  For stating the centroid in real arithmetic: the real number a finite number stands for,
  the voxels whose position is finite, and the arithmetic mean of a list of reals. The
  second example model has two voxels of tag 0 with an untagged voxel between them, and
  \<open>pairProject\<close> is a stand-in for a camera.
\<close>

fun realOf :: "jsnum \<Rightarrow> real" where
  "realOf (Fin r) = r"
| "realOf n = 0"

definition finitePosition :: "SimulationVoxel \<Rightarrow> bool" where
  "finitePosition v = (isFinite (v_x v) \<and> isFinite (v_y v) \<and> isFinite (v_z v))"

definition meanOf :: "real list \<Rightarrow> real" where
  "meanOf rs = sum_list rs / real (length rs)"

definition pairData :: "VoxelData list" where
  "pairData =
     [\<lparr> vd_x = Fin 1, vd_y = Fin 5, vd_z = Fin 0, vd_color = Fin 255, vd_stepIndex = Some (Fin 0) \<rparr>,
      \<lparr> vd_x = Fin 9, vd_y = Fin 9, vd_z = Fin 9, vd_color = Fin 255, vd_stepIndex = None \<rparr>,
      \<lparr> vd_x = Fin 3, vd_y = Fin 7, vd_z = Fin 0, vd_color = Fin 255, vd_stepIndex = Some (Fin 0) \<rparr>]"

definition pairDemo :: VoxelEngine where
  "pairDemo = loadInitialModel newEngine pairData demoRnd"

definition pairProject :: "jsnum \<times> jsnum \<times> jsnum \<Rightarrow> jsnum \<times> jsnum \<times> jsnum" where
  "pairProject c = (case c of (cx, cy, cz) \<Rightarrow> (cx * Fin 0.125, cy * Fin 0.125, cz))"

text \<open>The two sets have no index in common.\<close>

definition disjointSets :: "VoxelEngine \<Rightarrow> bool" where
  "disjointSets e = (set (activeRebuildIndices e) \<inter> set (rejectingIndices e) = {})"

section \<open>Properties of the commands\<close>

subsection \<open>rebuildLayer (attemptStep)\<close>

lemma matching_enumerate:
  "matching T (enumerate 0 vs) = filter (\<lambda>i. strict_eq (v_stepIndex (vs ! i)) T) [0..<length vs]"
proof (induction vs rule: rev_induct)
  case Nil
  show ?case by (simp add: matching_def)
next
  case (snoc x xs)
  have a: "filter (\<lambda>i. strict_eq (v_stepIndex ((xs @ [x]) ! i)) T) [0..<length xs] =
           filter (\<lambda>i. strict_eq (v_stepIndex (xs ! i)) T) [0..<length xs]"
    by (rule filter_cong) (auto simp: nth_append)
  have b: "matching T (enumerate 0 (xs @ [x])) =
           matching T (enumerate 0 xs) @ (if strict_eq (v_stepIndex x) T then [length xs] else [])"
    by (simp add: matching_def enumerate_eq_zip)
  show ?case unfolding b snoc.IH using a by simp
qed

lemma rebuildLoop_frame:
  "state (fst (rebuildLoop T ivs (e, k))) = state e \<and>
   notifications (fst (rebuildLoop T ivs (e, k))) = notifications e \<and>
   voxels (fst (rebuildLoop T ivs (e, k))) = voxels e \<and>
   rebuildTargets (fst (rebuildLoop T ivs (e, k))) = rebuildTargets e \<and>
   timeouts (fst (rebuildLoop T ivs (e, k))) = timeouts e \<and>
   now (fst (rebuildLoop T ivs (e, k))) = now e"
  by (induction T ivs "(e, k)" arbitrary: e k rule: rebuildLoop.induct) auto

lemma rebuildLoop_sets:
  "set (activeRebuildIndices (fst (rebuildLoop T ivs (e, k)))) =
     set (activeRebuildIndices e) \<union> set (matching T ivs) \<and>
   set (rejectingIndices (fst (rebuildLoop T ivs (e, k)))) =
     set (rejectingIndices e) - set (matching T ivs) \<and>
   snd (rebuildLoop T ivs (e, k)) = k + length (matching T ivs)"
  by (induction T ivs "(e, k)" arbitrary: e k rule: rebuildLoop.induct)
     (auto simp: matching_def set_add_def set_delete_def)

lemma rebuildLoop_none:
  "matching T ivs = [] \<Longrightarrow> rebuildLoop T ivs (e, k) = (e, k)"
  by (induction T ivs "(e, k)" arbitrary: e k rule: rebuildLoop.induct)
     (auto simp: matching_def split: if_splits)

lemma rebuildLoop_distinct:
  "distinct (activeRebuildIndices e) \<Longrightarrow> distinct (rejectingIndices e) \<Longrightarrow>
   distinct (activeRebuildIndices (fst (rebuildLoop T ivs (e, k)))) \<and>
   distinct (rejectingIndices (fst (rebuildLoop T ivs (e, k))))"
  by (induction T ivs "(e, k)" arbitrary: e k rule: rebuildLoop.induct)
     (auto simp: set_add_def set_delete_def distinct_removeAll)

lemma rebuildLayer_unfold:
  "rebuildLayer e T =
     (fst (rebuildLoop T (enumerate 0 (voxels e)) (onStateChange (e\<lparr>state := INTERACTIVE_REBUILD\<rparr>), 0)),
      0 < snd (rebuildLoop T (enumerate 0 (voxels e)) (onStateChange (e\<lparr>state := INTERACTIVE_REBUILD\<rparr>), 0)))"
  by (simp add: rebuildLayer_def Let_def onStateChange_def split: prod.splits)

lemma matching_carriers: "matching T (enumerate 0 (voxels e)) = carriers e T"
  by (simp add: matching_enumerate carriers_def)

lemma rebuildLayer_sets:
  "snd (rebuildLayer e T) = (carriers e T \<noteq> []) \<and>
   set (activeRebuildIndices (fst (rebuildLayer e T))) =
     set (activeRebuildIndices e) \<union> set (carriers e T) \<and>
   set (rejectingIndices (fst (rebuildLayer e T))) =
     set (rejectingIndices e) - set (carriers e T)"
  unfolding rebuildLayer_unfold
  using rebuildLoop_sets [of T "enumerate 0 (voxels e)" "onStateChange (e\<lparr>state := INTERACTIVE_REBUILD\<rparr>)" 0]
  by (simp add: matching_carriers onStateChange_def)

lemma rebuildLayer_frame:
  "voxels (fst (rebuildLayer e T)) = voxels e \<and>
   timeouts (fst (rebuildLayer e T)) = timeouts e \<and>
   now (fst (rebuildLayer e T)) = now e \<and>
   rebuildTargets (fst (rebuildLayer e T)) = rebuildTargets e \<and>
   state (fst (rebuildLayer e T)) = INTERACTIVE_REBUILD \<and>
   notifications (fst (rebuildLayer e T)) = notifications e @ [StateChanged INTERACTIVE_REBUILD]"
  unfolding rebuildLayer_unfold
  using rebuildLoop_frame [of T "enumerate 0 (voxels e)" "onStateChange (e\<lparr>state := INTERACTIVE_REBUILD\<rparr>)" 0]
  by (simp add: onStateChange_def)

lemma rebuildLayer_none:
  "carriers e T = [] \<Longrightarrow>
   activeRebuildIndices (fst (rebuildLayer e T)) = activeRebuildIndices e \<and>
   rejectingIndices (fst (rebuildLayer e T)) = rejectingIndices e"
  unfolding rebuildLayer_unfold
  using rebuildLoop_none [of T "enumerate 0 (voxels e)" "onStateChange (e\<lparr>state := INTERACTIVE_REBUILD\<rparr>)" 0]
  by (simp add: matching_carriers onStateChange_def)

lemma demo_tags: "map v_stepIndex (voxels demo) = [Fin 0, Fin 1, Fin (- 1)]"
  by (simp add: demo_def loadInitialModel_def onStateChange_def onCountChange_def Let_def
      createVoxels_def createVoxel_def demoData_def)

lemma demo_sets: "activeRebuildIndices demo = []" "rejectingIndices demo = []"
  by (simp_all add: demo_def loadInitialModel_def onStateChange_def onCountChange_def Let_def)

lemma demo_state: "state demo = STABLE"
  by (simp add: demo_def loadInitialModel_def onStateChange_def onCountChange_def Let_def)

lemma carriers_demo:
  "carriers demo (Fin 0) = [0]" "carriers demo (Fin 1) = [1]" "carriers demo (Fin 7) = []"
proof -
  have n: "\<And>i. i < length (voxels demo) \<Longrightarrow>
             v_stepIndex (voxels demo ! i) = map v_stepIndex (voxels demo) ! i"
    by simp
  have l: "length (voxels demo) = 3"
    using arg_cong [OF demo_tags, of length] by simp
  have u: "[0..<3] = [0, 1, 2]" by (simp add: upt_rec)
  show "carriers demo (Fin 0) = [0]" "carriers demo (Fin 1) = [1]" "carriers demo (Fin 7) = []"
    unfolding carriers_def l u using n [of 0] n [of 1] n [of 2]
    by (simp_all add: demo_tags l strict_eq_def)
qed

lemma carriers_voxels: "voxels e' = voxels e \<Longrightarrow> carriers e' T = carriers e T"
  by (simp add: carriers_def)

text \<open>
  Claim C2. \<^verbatim>\<open>rebuildLayer(T)\<close> returns true exactly when some voxel carries \<open>T\<close>; the
  active-flight set becomes the old one together with the indices of the voxels that
  carry \<open>T\<close>, and the rejecting set the old one without them; when no voxel carries \<open>T\<close>
  the call returns false and both sets are what they were.
\<close>

theorem attemptStep_effect:
  "snd (rebuildLayer e T) = (carriers e T \<noteq> []) \<and>
   set (activeRebuildIndices (fst (rebuildLayer e T))) =
     set (activeRebuildIndices e) \<union> set (carriers e T) \<and>
   set (rejectingIndices (fst (rebuildLayer e T))) =
     set (rejectingIndices e) - set (carriers e T) \<and>
   (carriers e T = [] \<longrightarrow>
      activeRebuildIndices (fst (rebuildLayer e T)) = activeRebuildIndices e \<and>
      rejectingIndices (fst (rebuildLayer e T)) = rejectingIndices e)"
  using rebuildLayer_sets [of e T] rebuildLayer_none [of e T] by simp

theorem attemptStep_effect_witness:
  "carriers demo (Fin 0) = [0] \<and> snd (rebuildLayer demo (Fin 0)) \<and>
   set (activeRebuildIndices (fst (rebuildLayer demo (Fin 0)))) = {0} \<and>
   carriers demo (Fin 7) = [] \<and> \<not> snd (rebuildLayer demo (Fin 7)) \<and>
   activeRebuildIndices (fst (rebuildLayer demo (Fin 7))) = [] \<and>
   rejectingIndices (fst (rebuildLayer demo (Fin 7))) = []"
  using attemptStep_effect [of demo "Fin 0"] attemptStep_effect [of demo "Fin 7"]
    carriers_demo demo_sets
  by simp

text \<open>
  Claim C10. \<^verbatim>\<open>rebuildLayer\<close> sets the mode to \<open>INTERACTIVE_REBUILD\<close> and reports it
  through \<^verbatim>\<open>onStateChange\<close>, whatever the mode was and whatever the tag is, also when
  no voxel carries the tag.
\<close>

theorem attemptStep_forces_mode:
  "state (fst (rebuildLayer e T)) = INTERACTIVE_REBUILD \<and>
   notifications (fst (rebuildLayer e T)) = notifications e @ [StateChanged INTERACTIVE_REBUILD]"
  using rebuildLayer_frame [of e T] by simp

subsection \<open>loadInitialModel (load)\<close>

lemma createVoxels_nth:
  "i < length data \<Longrightarrow> createVoxels data rnd ! i = createVoxel rnd (i, data ! i)"
  by (simp add: createVoxels_def nth_enumerate_eq)

text \<open>
  Claim C3. Loading a list of \<open>K\<close> voxel specs (\<open>K\<close> may be 0) leaves \<open>K\<close> voxels, reports
  the count \<open>K\<close> and the mode \<open>STABLE\<close>, empties the active-flight and the rejecting set,
  numbers the voxels from 0 in order, puts each at the position its spec gives, which is
  also its original position, and zeroes its velocities, angular velocities and rotation.
\<close>

theorem load_resets:
  "length (voxels (loadInitialModel e data rnd)) = length data \<and>
   state (loadInitialModel e data rnd) = STABLE \<and>
   activeRebuildIndices (loadInitialModel e data rnd) = [] \<and>
   rejectingIndices (loadInitialModel e data rnd) = [] \<and>
   notifications (loadInitialModel e data rnd) =
     notifications e @ [CountChanged (length data), StateChanged STABLE] \<and>
   (\<forall>i < length data.
      v_id (voxels (loadInitialModel e data rnd) ! i) = i \<and>
      v_x (voxels (loadInitialModel e data rnd) ! i) = vd_x (data ! i) \<and>
      v_y (voxels (loadInitialModel e data rnd) ! i) = vd_y (data ! i) \<and>
      v_z (voxels (loadInitialModel e data rnd) ! i) = vd_z (data ! i) \<and>
      originalX (voxels (loadInitialModel e data rnd) ! i) = v_x (voxels (loadInitialModel e data rnd) ! i) \<and>
      originalY (voxels (loadInitialModel e data rnd) ! i) = v_y (voxels (loadInitialModel e data rnd) ! i) \<and>
      originalZ (voxels (loadInitialModel e data rnd) ! i) = v_z (voxels (loadInitialModel e data rnd) ! i) \<and>
      vx (voxels (loadInitialModel e data rnd) ! i) = 0 \<and>
      vy (voxels (loadInitialModel e data rnd) ! i) = 0 \<and>
      vz (voxels (loadInitialModel e data rnd) ! i) = 0 \<and>
      rvx (voxels (loadInitialModel e data rnd) ! i) = 0 \<and>
      rvy (voxels (loadInitialModel e data rnd) ! i) = 0 \<and>
      rvz (voxels (loadInitialModel e data rnd) ! i) = 0 \<and>
      rx (voxels (loadInitialModel e data rnd) ! i) = 0 \<and>
      ry (voxels (loadInitialModel e data rnd) ! i) = 0 \<and>
      rz (voxels (loadInitialModel e data rnd) ! i) = 0)"
proof -
  have v: "voxels (loadInitialModel e data rnd) = createVoxels data rnd"
    by (simp add: loadInitialModel_def onStateChange_def onCountChange_def Let_def)
  have l: "length (createVoxels data rnd) = length data"
    by (simp add: createVoxels_def)
  have rest: "state (loadInitialModel e data rnd) = STABLE"
    "activeRebuildIndices (loadInitialModel e data rnd) = []"
    "rejectingIndices (loadInitialModel e data rnd) = []"
    "notifications (loadInitialModel e data rnd) =
       notifications e @ [CountChanged (length data), StateChanged STABLE]"
    by (simp_all add: loadInitialModel_def onStateChange_def onCountChange_def Let_def l)
  show ?thesis
    unfolding v using l rest by (simp add: createVoxels_nth createVoxel_def)
qed

theorem load_resets_witness:
  "length (voxels (loadInitialModel demo [] demoRnd)) = 0 \<and>
   state (loadInitialModel (fst (rebuildLayer demo (Fin 0))) demoData demoRnd) = STABLE \<and>
   activeRebuildIndices (loadInitialModel (fst (rebuildLayer demo (Fin 0))) demoData demoRnd) = [] \<and>
   (1 :: nat) < length demoData \<and>
   v_id (voxels (loadInitialModel (fst (rebuildLayer demo (Fin 0))) demoData demoRnd) ! 1) = 1 \<and>
   v_x (voxels (loadInitialModel (fst (rebuildLayer demo (Fin 0))) demoData demoRnd) ! 1) = Fin 1 \<and>
   originalY (voxels (loadInitialModel (fst (rebuildLayer demo (Fin 0))) demoData demoRnd) ! 1) = Fin 5 \<and>
   vy (voxels (loadInitialModel (fst (rebuildLayer demo (Fin 0))) demoData demoRnd) ! 1) = Fin 0"
proof -
  have h: "(1 :: nat) < length demoData" by (simp add: demoData_def)
  have d: "vd_x (demoData ! 1) = Fin 1" "vd_y (demoData ! 1) = Fin 5"
    by (simp_all add: demoData_def)
  show ?thesis
    using load_resets [of demo "[]" demoRnd]
      load_resets [of "fst (rebuildLayer demo (Fin 0))" demoData demoRnd] h d
    by (simp add: zero_jsnum_def)
qed

subsection \<open>dismantle\<close>

text \<open>
  Claim C4. Called in mode \<open>STABLE\<close>, with every draw of \<^verbatim>\<open>Math.random()\<close> in \<open>[0, 1)\<close>,
  \<^verbatim>\<open>dismantle\<close> sets the mode to \<open>DISMANTLING\<close>, gives every voxel the velocity and the
  angular velocity computed from its six draws, with a vertical component that is
  positive (so the velocity is not zero), and makes the rebuild target of every voxel its
  original position. Called in any other mode it changes nothing.
\<close>

theorem dismantle_effect:
  "(state e = STABLE \<and> (\<forall>k. 0 \<le> rnd k \<and> rnd k < 1) \<longrightarrow>
      state (dismantle e rnd) = DISMANTLING \<and>
      notifications (dismantle e rnd) = notifications e @ [StateChanged DISMANTLING] \<and>
      activeRebuildIndices (dismantle e rnd) = [] \<and>
      rejectingIndices (dismantle e rnd) = [] \<and>
      length (voxels (dismantle e rnd)) = length (voxels e) \<and>
      length (rebuildTargets (dismantle e rnd)) = length (voxels e) \<and>
      (\<forall>i < length (voxels e).
         vx (voxels (dismantle e rnd) ! i) = Fin ((rnd (6 * i) - 0.5) * 2) \<and>
         vy (voxels (dismantle e rnd) ! i) = Fin (rnd (6 * i + 1) * 1.5 + 0.5) \<and>
         vz (voxels (dismantle e rnd) ! i) = Fin ((rnd (6 * i + 2) - 0.5) * 2) \<and>
         js_gt (vy (voxels (dismantle e rnd) ! i)) 0 \<and>
         rvx (voxels (dismantle e rnd) ! i) = Fin ((rnd (6 * i + 3) - 0.5) * 0.4) \<and>
         rvy (voxels (dismantle e rnd) ! i) = Fin ((rnd (6 * i + 4) - 0.5) * 0.4) \<and>
         rvz (voxels (dismantle e rnd) ! i) = Fin ((rnd (6 * i + 5) - 0.5) * 0.4) \<and>
         t_x (rebuildTargets (dismantle e rnd) ! i) = originalX (voxels e ! i) \<and>
         t_y (rebuildTargets (dismantle e rnd) ! i) = originalY (voxels e ! i) \<and>
         t_z (rebuildTargets (dismantle e rnd) ! i) = originalZ (voxels e ! i) \<and>
         originalX (voxels (dismantle e rnd) ! i) = originalX (voxels e ! i) \<and>
         originalY (voxels (dismantle e rnd) ! i) = originalY (voxels e ! i) \<and>
         originalZ (voxels (dismantle e rnd) ! i) = originalZ (voxels e ! i))) \<and>
   (state e \<noteq> STABLE \<longrightarrow> dismantle e rnd = e)"
proof (intro conjI impI)
  assume "state e \<noteq> STABLE"
  then show "dismantle e rnd = e" by (simp add: dismantle_def)
next
  assume a: "state e = STABLE \<and> (\<forall>k. 0 \<le> rnd k \<and> rnd k < 1)"
  have v: "voxels (dismantle e rnd) = map (explode rnd) (enumerate 0 (voxels e))"
    using a by (simp add: dismantle_def Let_def onStateChange_def)
  have t: "rebuildTargets (dismantle e rnd) = map originalTarget (voxels e)"
    using a by (simp add: dismantle_def Let_def onStateChange_def)
  show "state (dismantle e rnd) = DISMANTLING"
    "notifications (dismantle e rnd) = notifications e @ [StateChanged DISMANTLING]"
    "activeRebuildIndices (dismantle e rnd) = []"
    "rejectingIndices (dismantle e rnd) = []"
    using a by (simp_all add: dismantle_def Let_def onStateChange_def)
  show "length (voxels (dismantle e rnd)) = length (voxels e)"
    by (simp add: v)
  show "length (rebuildTargets (dismantle e rnd)) = length (voxels e)"
    by (simp add: t)
  show "\<forall>i < length (voxels e).
         vx (voxels (dismantle e rnd) ! i) = Fin ((rnd (6 * i) - 0.5) * 2) \<and>
         vy (voxels (dismantle e rnd) ! i) = Fin (rnd (6 * i + 1) * 1.5 + 0.5) \<and>
         vz (voxels (dismantle e rnd) ! i) = Fin ((rnd (6 * i + 2) - 0.5) * 2) \<and>
         js_gt (vy (voxels (dismantle e rnd) ! i)) 0 \<and>
         rvx (voxels (dismantle e rnd) ! i) = Fin ((rnd (6 * i + 3) - 0.5) * 0.4) \<and>
         rvy (voxels (dismantle e rnd) ! i) = Fin ((rnd (6 * i + 4) - 0.5) * 0.4) \<and>
         rvz (voxels (dismantle e rnd) ! i) = Fin ((rnd (6 * i + 5) - 0.5) * 0.4) \<and>
         t_x (rebuildTargets (dismantle e rnd) ! i) = originalX (voxels e ! i) \<and>
         t_y (rebuildTargets (dismantle e rnd) ! i) = originalY (voxels e ! i) \<and>
         t_z (rebuildTargets (dismantle e rnd) ! i) = originalZ (voxels e ! i) \<and>
         originalX (voxels (dismantle e rnd) ! i) = originalX (voxels e ! i) \<and>
         originalY (voxels (dismantle e rnd) ! i) = originalY (voxels e ! i) \<and>
         originalZ (voxels (dismantle e rnd) ! i) = originalZ (voxels e ! i)"
  proof (intro allI impI)
    fix i assume i: "i < length (voxels e)"
    have p: "0 < rnd (6 * i + 1) * 1.5 + 0.5"
    proof -
      have "0 \<le> rnd (6 * i + 1)" using a by blast
      then show ?thesis by simp
    qed
    show "vx (voxels (dismantle e rnd) ! i) = Fin ((rnd (6 * i) - 0.5) * 2) \<and>
         vy (voxels (dismantle e rnd) ! i) = Fin (rnd (6 * i + 1) * 1.5 + 0.5) \<and>
         vz (voxels (dismantle e rnd) ! i) = Fin ((rnd (6 * i + 2) - 0.5) * 2) \<and>
         js_gt (vy (voxels (dismantle e rnd) ! i)) 0 \<and>
         rvx (voxels (dismantle e rnd) ! i) = Fin ((rnd (6 * i + 3) - 0.5) * 0.4) \<and>
         rvy (voxels (dismantle e rnd) ! i) = Fin ((rnd (6 * i + 4) - 0.5) * 0.4) \<and>
         rvz (voxels (dismantle e rnd) ! i) = Fin ((rnd (6 * i + 5) - 0.5) * 0.4) \<and>
         t_x (rebuildTargets (dismantle e rnd) ! i) = originalX (voxels e ! i) \<and>
         t_y (rebuildTargets (dismantle e rnd) ! i) = originalY (voxels e ! i) \<and>
         t_z (rebuildTargets (dismantle e rnd) ! i) = originalZ (voxels e ! i) \<and>
         originalX (voxels (dismantle e rnd) ! i) = originalX (voxels e ! i) \<and>
         originalY (voxels (dismantle e rnd) ! i) = originalY (voxels e ! i) \<and>
         originalZ (voxels (dismantle e rnd) ! i) = originalZ (voxels e ! i)"
      unfolding v t using i p
      by (simp add: nth_enumerate_eq explode_def originalTarget_def minus_jsnum_def js_gt_def zero_jsnum_def)
  qed
qed

theorem dismantle_effect_witness:
  "state demo = STABLE \<and>
   state (dismantle demo demoRnd) = DISMANTLING \<and>
   vy (voxels (dismantle demo demoRnd) ! 0) = Fin (7 / 8) \<and>
   t_y (rebuildTargets (dismantle demo demoRnd) ! 0) = Fin 5 \<and>
   state (dismantle demo demoRnd) \<noteq> STABLE \<and>
   dismantle (dismantle demo demoRnd) demoRnd = dismantle demo demoRnd"
proof -
  have r: "\<forall>k. 0 \<le> demoRnd k \<and> demoRnd k < 1" by (simp add: demoRnd_def)
  have v: "voxels demo = createVoxels demoData demoRnd"
    by (simp add: demo_def loadInitialModel_def onStateChange_def onCountChange_def Let_def)
  have l: "0 < length (voxels demo)" by (simp add: v createVoxels_def demoData_def)
  have o: "originalY (voxels demo ! 0) = Fin 5"
    by (simp add: v createVoxels_def createVoxel_def demoData_def)
  have q: "demoRnd (6 * 0 + 1) * 1.5 + 0.5 = 7 / 8" by (simp add: demoRnd_def)
  have d: "state (dismantle demo demoRnd) = DISMANTLING"
    using dismantle_effect [of demo demoRnd] demo_state r by blast
  show ?thesis
    using dismantle_effect [of demo demoRnd] dismantle_effect [of "dismantle demo demoRnd" demoRnd]
      demo_state r l o q d
    by simp
qed

subsection \<open>rejectLayer, the frame and the timer\<close>

lemma rejectLoop_frame:
  "activeRebuildIndices (rejectLoop T rnd ivs k e) = activeRebuildIndices e \<and>
   state (rejectLoop T rnd ivs k e) = state e \<and>
   notifications (rejectLoop T rnd ivs k e) = notifications e \<and>
   rebuildTargets (rejectLoop T rnd ivs k e) = rebuildTargets e \<and>
   timeouts (rejectLoop T rnd ivs k e) = timeouts e \<and>
   now (rejectLoop T rnd ivs k e) = now e \<and>
   length (voxels (rejectLoop T rnd ivs k e)) = length (voxels e)"
  by (induction T rnd ivs k e rule: rejectLoop.induct) auto

lemma rejectLoop_rejecting:
  "set (rejectingIndices (rejectLoop T rnd ivs k e)) =
     set (rejectingIndices e) \<union> set (matching T ivs)"
  by (induction T rnd ivs k e rule: rejectLoop.induct)
     (auto simp: matching_def set_add_def)

lemma rejectLoop_distinct:
  "distinct (rejectingIndices e) \<Longrightarrow> distinct (rejectingIndices (rejectLoop T rnd ivs k e))"
  by (induction T rnd ivs k e rule: rejectLoop.induct) (auto simp: set_add_def)

lemma rejectLayer_distinct:
  "distinct (rejectingIndices e) \<Longrightarrow> distinct (rejectingIndices (rejectLayer e T rnd))"
  using rejectLoop_distinct [of "onStateChange (e\<lparr>state := REJECTING\<rparr>)" T rnd "enumerate 0 (voxels e)" 0]
  by (simp add: rejectLayer_def Let_def onStateChange_def)

lemma rebuildLayer_distinct:
  "distinct (activeRebuildIndices e) \<Longrightarrow> distinct (rejectingIndices e) \<Longrightarrow>
   distinct (activeRebuildIndices (fst (rebuildLayer e T))) \<and>
   distinct (rejectingIndices (fst (rebuildLayer e T)))"
  unfolding rebuildLayer_unfold
  using rebuildLoop_distinct [of "onStateChange (e\<lparr>state := INTERACTIVE_REBUILD\<rparr>)" T "enumerate 0 (voxels e)" 0]
  by (simp add: onStateChange_def)

lemma rejectLayer_sets:
  "activeRebuildIndices (rejectLayer e T rnd) = activeRebuildIndices e \<and>
   set (rejectingIndices (rejectLayer e T rnd)) = set (rejectingIndices e) \<union> set (carriers e T) \<and>
   state (rejectLayer e T rnd) = REJECTING \<and>
   notifications (rejectLayer e T rnd) = notifications e @ [StateChanged REJECTING] \<and>
   timeouts (rejectLayer e T rnd) = timeouts e @ [now e + 800] \<and>
   now (rejectLayer e T rnd) = now e \<and>
   length (voxels (rejectLayer e T rnd)) = length (voxels e)"
  using rejectLoop_frame [of T rnd "enumerate 0 (voxels e)" 0 "onStateChange (e\<lparr>state := REJECTING\<rparr>)"]
    rejectLoop_rejecting [of T rnd "enumerate 0 (voxels e)" 0 "onStateChange (e\<lparr>state := REJECTING\<rparr>)"]
  by (simp add: rejectLayer_def Let_def onStateChange_def matching_carriers)

lemma flightLoop_frame:
  "flightLoop is e = Inr e' \<Longrightarrow>
   state e' = state e \<and> activeRebuildIndices e' = activeRebuildIndices e \<and>
   rejectingIndices e' = rejectingIndices e \<and> timeouts e' = timeouts e \<and> now e' = now e \<and>
   notifications e' = notifications e \<and> rebuildTargets e' = rebuildTargets e \<and>
   length (voxels e') = length (voxels e)"
  by (induction "is" e rule: flightLoop.induct) (auto simp: Let_def split: if_splits)

lemma bounceLoop_frame:
  "bounceLoop F is e = Inr e' \<Longrightarrow>
   state e' = state e \<and> activeRebuildIndices e' = activeRebuildIndices e \<and>
   rejectingIndices e' = rejectingIndices e \<and> timeouts e' = timeouts e \<and> now e' = now e \<and>
   notifications e' = notifications e \<and> rebuildTargets e' = rebuildTargets e \<and>
   length (voxels e') = length (voxels e)"
  by (induction F "is" e rule: bounceLoop.induct) (auto split: if_splits)

lemma updatePhysics_frame:
  assumes "updatePhysics F e = Inr e'"
  shows "state e' = state e \<and> activeRebuildIndices e' = activeRebuildIndices e \<and>
   rejectingIndices e' = rejectingIndices e \<and> timeouts e' = timeouts e \<and> now e' = now e \<and>
   notifications e' = notifications e \<and> rebuildTargets e' = rebuildTargets e \<and>
   length (voxels e') = length (voxels e)"
proof (cases "state e = STABLE")
  case True
  then show ?thesis using assms by (simp add: updatePhysics_def)
next
  case False
  let ?e1 = "rubblePhase F e"
  have r: "state ?e1 = state e" "activeRebuildIndices ?e1 = activeRebuildIndices e"
    "rejectingIndices ?e1 = rejectingIndices e" "timeouts ?e1 = timeouts e" "now ?e1 = now e"
    "notifications ?e1 = notifications e" "rebuildTargets ?e1 = rebuildTargets e"
    "length (voxels ?e1) = length (voxels e)"
    by (simp_all add: rubblePhase_def)
  obtain e2 where e2: "(if state ?e1 = INTERACTIVE_REBUILD \<or> state ?e1 = REJECTING
                 then flightLoop (activeRebuildIndices ?e1) ?e1 else Inr ?e1) = Inr e2"
    and e3: "(if state e2 = REJECTING then bounceLoop F (rejectingIndices e2) e2 else Inr e2) = Inr e'"
    using assms False by (auto simp: updatePhysics_def Let_def split: sum.splits)
  have f2: "state e2 = state ?e1 \<and> activeRebuildIndices e2 = activeRebuildIndices ?e1 \<and>
   rejectingIndices e2 = rejectingIndices ?e1 \<and> timeouts e2 = timeouts ?e1 \<and> now e2 = now ?e1 \<and>
   notifications e2 = notifications ?e1 \<and> rebuildTargets e2 = rebuildTargets ?e1 \<and>
   length (voxels e2) = length (voxels ?e1)"
    using e2 flightLoop_frame [of "activeRebuildIndices ?e1" ?e1 e2] by (auto split: if_splits)
  have f3: "state e' = state e2 \<and> activeRebuildIndices e' = activeRebuildIndices e2 \<and>
   rejectingIndices e' = rejectingIndices e2 \<and> timeouts e' = timeouts e2 \<and> now e' = now e2 \<and>
   notifications e' = notifications e2 \<and> rebuildTargets e' = rebuildTargets e2 \<and>
   length (voxels e') = length (voxels e2)"
    using e3 bounceLoop_frame [of F "rejectingIndices e2" e2 e'] by (auto split: if_splits)
  show ?thesis using r f2 f3 by simp
qed

lemma ticks_frame:
  "ticks n F e = Inr e' \<Longrightarrow>
   state e' = state e \<and> activeRebuildIndices e' = activeRebuildIndices e \<and>
   rejectingIndices e' = rejectingIndices e \<and> timeouts e' = timeouts e \<and> now e' = now e \<and>
   notifications e' = notifications e \<and> rebuildTargets e' = rebuildTargets e \<and>
   length (voxels e') = length (voxels e)"
proof (induction n arbitrary: e)
  case 0
  then show ?case by simp
next
  case (Suc n)
  then obtain e1 where a: "updatePhysics F e = Inr e1" and b: "ticks n F e1 = Inr e'"
    by (auto split: sum.splits)
  show ?case using updatePhysics_frame [OF a] Suc.IH [OF b] by simp
qed

lemma fold_rejectTimeout_other:
  "state e \<noteq> REJECTING \<Longrightarrow> fold (\<lambda>u. rejectTimeout) us e = e"
  by (induction us) (simp_all add: rejectTimeout_def)

lemma fold_rejectTimeout_rejecting:
  "state e = REJECTING \<Longrightarrow> us \<noteq> [] \<Longrightarrow> fold (\<lambda>u. rejectTimeout) us e = rejectTimeout e"
proof -
  assume a: "state e = REJECTING" and b: "us \<noteq> []"
  obtain u rest where u: "us = u # rest" using b by (cases us) auto
  have "state (rejectTimeout e) \<noteq> REJECTING"
    using a by (simp add: rejectTimeout_def onStateChange_def)
  then show ?thesis
    unfolding u using fold_rejectTimeout_other [of "rejectTimeout e" rest] by simp
qed

lemma elapse_other:
  "state e \<noteq> REJECTING \<Longrightarrow>
   elapse d e = e\<lparr>now := now e + d, timeouts := filter (\<lambda>u. \<not> u \<le> now e + d) (timeouts e)\<rparr>"
  by (simp add: elapse_def Let_def fold_rejectTimeout_other)

lemma elapse_rejecting:
  assumes "state e = REJECTING" "\<exists>u \<in> set (timeouts e). u \<le> now e + d"
  shows "state (elapse d e) = INTERACTIVE_REBUILD \<and> rejectingIndices (elapse d e) = [] \<and>
         notifications (elapse d e) = notifications e @ [StateChanged INTERACTIVE_REBUILD] \<and>
         voxels (elapse d e) = voxels e \<and> activeRebuildIndices (elapse d e) = activeRebuildIndices e"
proof -
  let ?t = "now e + d"
  let ?e1 = "e\<lparr>now := ?t, timeouts := filter (\<lambda>u. \<not> u \<le> ?t) (timeouts e)\<rparr>"
  have ne: "filter (\<lambda>u. u \<le> ?t) (timeouts e) \<noteq> []"
    using assms(2) by (auto simp: filter_empty_conv)
  have s: "state ?e1 = REJECTING" using assms(1) by simp
  have "elapse d e = rejectTimeout ?e1"
    using fold_rejectTimeout_rejecting [OF s ne] by (simp add: elapse_def Let_def)
  then show ?thesis using assms(1) by (simp add: rejectTimeout_def onStateChange_def)
qed


lemma flightLoop_total:
  "list_all (\<lambda>i. i < length (voxels e)) is \<Longrightarrow> \<exists>e'. flightLoop is e = Inr e'"
  by (induction "is" e rule: flightLoop.induct) (auto simp: Let_def)

lemma bounceLoop_total:
  "list_all (\<lambda>i. i < length (voxels e)) is \<Longrightarrow> \<exists>e'. bounceLoop F is e = Inr e'"
  by (induction F "is" e rule: bounceLoop.induct) auto

lemma updatePhysics_total:
  assumes "wellFormed e"
  shows "\<exists>e'. updatePhysics F e = Inr e'"
proof (cases "state e = STABLE")
  case True
  then show ?thesis by (simp add: updatePhysics_def)
next
  case False
  let ?e1 = "rubblePhase F e"
  have w1: "list_all (\<lambda>i. i < length (voxels ?e1)) (activeRebuildIndices ?e1)"
    "rejectingIndices ?e1 = rejectingIndices e" "length (voxels ?e1) = length (voxels e)"
    using assms by (simp_all add: wellFormed_def rubblePhase_def)
  have "\<exists>e2. (if state ?e1 = INTERACTIVE_REBUILD \<or> state ?e1 = REJECTING
                 then flightLoop (activeRebuildIndices ?e1) ?e1 else Inr ?e1) = Inr e2"
    using flightLoop_total [OF w1(1)]
    by (cases "state ?e1 = INTERACTIVE_REBUILD \<or> state ?e1 = REJECTING") simp_all
  then obtain e2 where e2: "(if state ?e1 = INTERACTIVE_REBUILD \<or> state ?e1 = REJECTING
                 then flightLoop (activeRebuildIndices ?e1) ?e1 else Inr ?e1) = Inr e2"
    by blast
  have f2: "rejectingIndices e2 = rejectingIndices ?e1 \<and> length (voxels e2) = length (voxels ?e1)"
    using e2 flightLoop_frame [of "activeRebuildIndices ?e1" ?e1 e2] by (auto split: if_splits)
  have w2: "list_all (\<lambda>i. i < length (voxels e2)) (rejectingIndices e2)"
    using assms f2 w1 by (simp add: wellFormed_def)
  have "\<exists>e3. (if state e2 = REJECTING then bounceLoop F (rejectingIndices e2) e2 else Inr e2) = Inr e3"
    using bounceLoop_total [OF w2, of F] by (cases "state e2 = REJECTING") simp_all
  then obtain e3 where e3: "(if state e2 = REJECTING then bounceLoop F (rejectingIndices e2) e2 else Inr e2) = Inr e3"
    by blast
  show ?thesis
    using False e2 e3 by (simp add: updatePhysics_def Let_def)
qed

lemma wellFormed_frame:
  "activeRebuildIndices e' = activeRebuildIndices e \<Longrightarrow> rejectingIndices e' = rejectingIndices e \<Longrightarrow>
   length (voxels e') = length (voxels e) \<Longrightarrow> wellFormed e \<Longrightarrow> wellFormed e'"
  by (simp add: wellFormed_def)

lemma ticks_total:
  "wellFormed e \<Longrightarrow> \<exists>e'. ticks n F e = Inr e'"
proof (induction n arbitrary: e)
  case 0
  show ?case by simp
next
  case (Suc n)
  obtain e1 where a: "updatePhysics F e = Inr e1"
    using updatePhysics_total [OF Suc.prems] by blast
  have "wellFormed e1"
    using updatePhysics_frame [OF a] wellFormed_frame [of e1 e] Suc.prems by simp
  then obtain e' where "ticks n F e1 = Inr e'" using Suc.IH by blast
  then show ?case using a by simp
qed

lemma flightTarget_cong:
  "rebuildTargets e' = rebuildTargets e \<Longrightarrow> flightTarget e' i v = flightTarget e i v"
  by (simp add: flightTarget_def)

lemma flightLoop_nth:
  "distinct is \<Longrightarrow> list_all (\<lambda>i. i < length (voxels e)) is \<Longrightarrow>
   \<exists>e'. flightLoop is e = Inr e' \<and>
        (\<forall>j < length (voxels e).
           voxels e' ! j =
             (if j \<in> set is then flight (flightTarget e j (voxels e ! j)) (voxels e ! j)
              else voxels e ! j))"
proof (induction "is" arbitrary: e)
  case Nil
  then show ?case by simp
next
  case (Cons i rest)
  let ?e1 = "e\<lparr>voxels := (voxels e)[i := flight (flightTarget e i (voxels e ! i)) (voxels e ! i)]\<rparr>"
  have i: "i < length (voxels e)" "i \<notin> set rest" "distinct rest"
    using Cons.prems by simp_all
  have r: "list_all (\<lambda>i. i < length (voxels ?e1)) rest" using Cons.prems by simp
  obtain e' where e': "flightLoop rest ?e1 = Inr e'"
    and n: "\<forall>j < length (voxels ?e1). voxels e' ! j =
             (if j \<in> set rest then flight (flightTarget ?e1 j (voxels ?e1 ! j)) (voxels ?e1 ! j)
              else voxels ?e1 ! j)"
    using Cons.IH [OF i(3) r] by blast
  have t: "\<And>j v. flightTarget ?e1 j v = flightTarget e j v"
    by (simp add: flightTarget_def)
  have "flightLoop (i # rest) e = Inr e'"
    using e' i(1) by (simp add: Let_def)
  moreover have "\<forall>j < length (voxels e). voxels e' ! j =
             (if j \<in> set (i # rest) then flight (flightTarget e j (voxels e ! j)) (voxels e ! j)
              else voxels e ! j)"
  proof (intro allI impI)
    fix j assume j: "j < length (voxels e)"
    show "voxels e' ! j =
             (if j \<in> set (i # rest) then flight (flightTarget e j (voxels e ! j)) (voxels e ! j)
              else voxels e ! j)"
    proof (cases "j = i")
      case True
      then show ?thesis using n j i by simp
    next
      case False
      then show ?thesis using n j t by simp
    qed
  qed
  ultimately show ?case by blast
qed

lemma bounceLoop_nth:
  "distinct is \<Longrightarrow> list_all (\<lambda>i. i < length (voxels e)) is \<Longrightarrow>
   \<exists>e'. bounceLoop F is e = Inr e' \<and>
        (\<forall>j < length (voxels e).
           voxels e' ! j = (if j \<in> set is then bounce F (voxels e ! j) else voxels e ! j))"
proof (induction "is" arbitrary: e)
  case Nil
  then show ?case by simp
next
  case (Cons i rest)
  let ?e1 = "e\<lparr>voxels := (voxels e)[i := bounce F (voxels e ! i)]\<rparr>"
  have i: "i < length (voxels e)" "i \<notin> set rest" "distinct rest"
    using Cons.prems by simp_all
  have r: "list_all (\<lambda>i. i < length (voxels ?e1)) rest" using Cons.prems by simp
  obtain e' where e': "bounceLoop F rest ?e1 = Inr e'"
    and n: "\<forall>j < length (voxels ?e1). voxels e' ! j =
             (if j \<in> set rest then bounce F (voxels ?e1 ! j) else voxels ?e1 ! j)"
    using Cons.IH [OF i(3) r] by blast
  have "bounceLoop F (i # rest) e = Inr e'"
    using e' i(1) by simp
  moreover have "\<forall>j < length (voxels e). voxels e' ! j =
             (if j \<in> set (i # rest) then bounce F (voxels e ! j) else voxels e ! j)"
  proof (intro allI impI)
    fix j assume j: "j < length (voxels e)"
    show "voxels e' ! j = (if j \<in> set (i # rest) then bounce F (voxels e ! j) else voxels e ! j)"
    proof (cases "j = i")
      case True
      then show ?thesis using n j i by simp
    next
      case False
      then show ?thesis using n j by simp
    qed
  qed
  ultimately show ?case by blast
qed

lemma rubblePhase_nth:
  "j < length (voxels e) \<Longrightarrow>
   voxels (rubblePhase F e) ! j =
     (if j \<notin> set (activeRebuildIndices e) \<and> j \<notin> set (rejectingIndices e)
      then rubble F (voxels e ! j) else voxels e ! j)"
  by (simp add: rubblePhase_def nth_enumerate_eq Let_def)

lemma updatePhysics_nth:
  assumes w: "wellFormed e" and s: "state e \<noteq> STABLE"
  shows "\<exists>e'. updatePhysics F e = Inr e' \<and>
           (\<forall>j < length (voxels e). voxels e' ! j = frameVoxel F e j)"
proof -
  let ?e1 = "rubblePhase F e"
  have da: "distinct (activeRebuildIndices e)" and dr: "distinct (rejectingIndices e)"
    using w by (simp_all add: wellFormed_def)
  have f1: "state ?e1 = state e" "activeRebuildIndices ?e1 = activeRebuildIndices e"
    "rejectingIndices ?e1 = rejectingIndices e" "rebuildTargets ?e1 = rebuildTargets e"
    "length (voxels ?e1) = length (voxels e)"
    by (simp_all add: rubblePhase_def)
  have wa: "list_all (\<lambda>i. i < length (voxels ?e1)) (activeRebuildIndices e)"
    using w f1 by (simp add: wellFormed_def)
  obtain e2 where e2: "(if state ?e1 = INTERACTIVE_REBUILD \<or> state ?e1 = REJECTING
                 then flightLoop (activeRebuildIndices ?e1) ?e1 else Inr ?e1) = Inr e2"
    and n2: "\<forall>j < length (voxels e). voxels e2 ! j =
       (if (state e = INTERACTIVE_REBUILD \<or> state e = REJECTING) \<and> j \<in> set (activeRebuildIndices e)
        then flight (flightTarget e j (voxels ?e1 ! j)) (voxels ?e1 ! j) else voxels ?e1 ! j)"
  proof (cases "state e = INTERACTIVE_REBUILD \<or> state e = REJECTING")
    case True
    obtain e2 where a: "flightLoop (activeRebuildIndices e) ?e1 = Inr e2"
      and b: "\<forall>j < length (voxels ?e1). voxels e2 ! j =
             (if j \<in> set (activeRebuildIndices e)
              then flight (flightTarget ?e1 j (voxels ?e1 ! j)) (voxels ?e1 ! j)
              else voxels ?e1 ! j)"
      using flightLoop_nth [OF da wa] by blast
    have t: "\<And>j v. flightTarget ?e1 j v = flightTarget e j v"
      using flightTarget_cong [OF f1(4)] by simp
    show ?thesis using that [of e2] a b True f1 t by simp
  next
    case False
    show ?thesis using that [of ?e1] False f1 by simp
  qed
  have f2: "state e2 = state e" "rejectingIndices e2 = rejectingIndices e"
    "length (voxels e2) = length (voxels e)"
    using e2 flightLoop_frame [of "activeRebuildIndices ?e1" ?e1 e2] f1 by (auto split: if_splits)
  have wr: "list_all (\<lambda>i. i < length (voxels e2)) (rejectingIndices e)"
    using w f2 by (simp add: wellFormed_def)
  obtain e3 where e3: "(if state e2 = REJECTING then bounceLoop F (rejectingIndices e2) e2 else Inr e2) = Inr e3"
    and n3: "\<forall>j < length (voxels e). voxels e3 ! j =
       (if state e = REJECTING \<and> j \<in> set (rejectingIndices e) then bounce F (voxels e2 ! j)
        else voxels e2 ! j)"
  proof (cases "state e = REJECTING")
    case True
    obtain e3 where a: "bounceLoop F (rejectingIndices e) e2 = Inr e3"
      and b: "\<forall>j < length (voxels e2). voxels e3 ! j =
             (if j \<in> set (rejectingIndices e) then bounce F (voxels e2 ! j) else voxels e2 ! j)"
      using bounceLoop_nth [OF dr wr] by blast
    show ?thesis using that [of e3] a b True f2 by simp
  next
    case False
    show ?thesis using that [of e2] False f2 by simp
  qed
  have "updatePhysics F e = Inr e3"
    using s e2 e3 by (simp add: updatePhysics_def Let_def)
  moreover have "\<forall>j < length (voxels e). voxels e3 ! j = frameVoxel F e j"
    using n2 n3 rubblePhase_nth [of _ e F] by (simp add: frameVoxel_def Let_def)
  ultimately show ?thesis by blast
qed


lemma carriers_bound: "i \<in> set (carriers e T) \<Longrightarrow> i < length (voxels e)"
  by (simp add: carriers_def)

lemma wellFormed_rejectLayer: "wellFormed e \<Longrightarrow> wellFormed (rejectLayer e T rnd)"
  using rejectLayer_sets [of e T rnd] carriers_bound [of _ e T] rejectLayer_distinct [of e T rnd]
  by (auto simp: wellFormed_def list_all_iff)

lemma wellFormed_rebuildLayer: "wellFormed e \<Longrightarrow> wellFormed (fst (rebuildLayer e T))"
  using rebuildLayer_sets [of e T] rebuildLayer_frame [of e T] carriers_bound [of _ e T]
    rebuildLayer_distinct [of e T]
  by (auto simp: wellFormed_def list_all_iff)

lemma wellFormed_load: "wellFormed (loadInitialModel e data rnd)"
  by (simp add: wellFormed_def loadInitialModel_def Let_def)

lemma wellFormed_dismantle: "wellFormed e \<Longrightarrow> wellFormed (dismantle e rnd)"
  by (simp add: wellFormed_def dismantle_def Let_def)

lemma load_frame:
  "now (loadInitialModel e data rnd) = now e \<and> timeouts (loadInitialModel e data rnd) = timeouts e \<and>
   state (loadInitialModel e data rnd) = STABLE"
  by (simp add: loadInitialModel_def onStateChange_def onCountChange_def Let_def)

lemma wellFormed_demo: "wellFormed demo"
  by (simp add: demo_def wellFormed_load)

lemma demo_voxels: "voxels demo = createVoxels demoData demoRnd"
  by (simp add: demo_def loadInitialModel_def onStateChange_def onCountChange_def Let_def)

lemma demo_length: "length (voxels demo) = 3"
  by (simp add: demo_voxels createVoxels_def demoData_def)

lemma demo_targets: "rebuildTargets demo = []"
  by (simp add: demo_def loadInitialModel_def onStateChange_def onCountChange_def Let_def)

lemma demo_voxel1:
  "voxels demo ! 1 =
     \<lparr> v_id = 1, v_x = Fin 1, v_y = Fin 5, v_z = Fin 0,
       v_color = OffsetHSL (NewColor (Fin 65280)) 0 0 (Fin (1 / 4) * Fin 0.05 - Fin 0.025),
       v_stepIndex = Fin 1, originalX = Fin 1, originalY = Fin 5, originalZ = Fin 0,
       vx = 0, vy = 0, vz = 0, rx = 0, ry = 0, rz = 0, rvx = 0, rvy = 0, rvz = 0 \<rparr>"
  by (simp add: demo_voxels createVoxels_def createVoxel_def demoData_def demoRnd_def)

lemma rubble_fixed:
  "v_stepIndex (rubble F v) = v_stepIndex v \<and> originalX (rubble F v) = originalX v \<and>
   originalY (rubble F v) = originalY v \<and> originalZ (rubble F v) = originalZ v \<and>
   v_id (rubble F v) = v_id v \<and> v_color (rubble F v) = v_color v"
  by (simp add: rubble_def Let_def)

lemma flight_fixed:
  "v_stepIndex (flight t v) = v_stepIndex v \<and> originalX (flight t v) = originalX v \<and>
   originalY (flight t v) = originalY v \<and> originalZ (flight t v) = originalZ v \<and>
   v_id (flight t v) = v_id v \<and> v_color (flight t v) = v_color v"
  by (cases t) (simp add: flight_def Let_def)

lemma bounce_fixed:
  "v_stepIndex (bounce F v) = v_stepIndex v \<and> originalX (bounce F v) = originalX v \<and>
   originalY (bounce F v) = originalY v \<and> originalZ (bounce F v) = originalZ v \<and>
   v_id (bounce F v) = v_id v \<and> v_color (bounce F v) = v_color v"
  by (simp add: bounce_def Let_def)

lemma frameVoxel_fixed:
  "v_stepIndex (frameVoxel F e j) = v_stepIndex (voxels e ! j) \<and>
   originalX (frameVoxel F e j) = originalX (voxels e ! j) \<and>
   originalY (frameVoxel F e j) = originalY (voxels e ! j) \<and>
   originalZ (frameVoxel F e j) = originalZ (voxels e ! j) \<and>
   v_id (frameVoxel F e j) = v_id (voxels e ! j) \<and>
   v_color (frameVoxel F e j) = v_color (voxels e ! j)"
  by (simp add: frameVoxel_def Let_def rubble_fixed flight_fixed bounce_fixed)

lemma updatePhysics_tags:
  assumes "wellFormed e" "updatePhysics F e = Inr e'"
  shows "map v_stepIndex (voxels e') = map v_stepIndex (voxels e)"
proof (cases "state e = STABLE")
  case True
  then show ?thesis using assms(2) by (simp add: updatePhysics_def)
next
  case False
  obtain e2 where "updatePhysics F e = Inr e2"
    and n: "\<forall>j < length (voxels e). voxels e2 ! j = frameVoxel F e j"
    using updatePhysics_nth [OF assms(1) False] by blast
  then have "e2 = e'" using assms(2) by simp
  then have "\<forall>j < length (voxels e). v_stepIndex (voxels e' ! j) = v_stepIndex (voxels e ! j)"
    using n frameVoxel_fixed by simp
  then show ?thesis
    using updatePhysics_frame [OF assms(2)] by (simp add: list_eq_iff_nth_eq)
qed

lemma carriers_tags:
  assumes "map v_stepIndex (voxels e') = map v_stepIndex (voxels e)"
  shows "carriers e' T = carriers e T"
proof -
  have l: "length (voxels e') = length (voxels e)"
    using arg_cong [OF assms, of length] by simp
  have "\<And>i. i < length (voxels e) \<Longrightarrow> v_stepIndex (voxels e' ! i) = v_stepIndex (voxels e ! i)"
    using assms l by (metis nth_map)
  then show ?thesis
    unfolding carriers_def l by (auto intro: filter_cong)
qed

text \<open>
  Claim C1, at the input where it fails: after loading the example model,
  \<^verbatim>\<open>rebuildLayer(0)\<close> and then \<^verbatim>\<open>rejectLayer(0)\<close>, voxel 0 is in the active-flight set
  and in the rejecting set, in mode \<open>REJECTING\<close>, and the next frame applies both the
  flight branch and the bounce branch to it. \<^verbatim>\<open>rejectLayer\<close> adds to the rejecting set and
  leaves the active-flight set as it is (lemma \<open>rejectLayer_sets\<close>).
\<close>

theorem reject_after_rebuild_overlap:
  "set (activeRebuildIndices (rejectLayer (fst (rebuildLayer demo (Fin 0))) (Fin 0) demoRnd)) = {0} \<and>
   set (rejectingIndices (rejectLayer (fst (rebuildLayer demo (Fin 0))) (Fin 0) demoRnd)) = {0} \<and>
   state (rejectLayer (fst (rebuildLayer demo (Fin 0))) (Fin 0) demoRnd) = REJECTING \<and>
   (\<exists>e'. updatePhysics (Fin (- 12)) (rejectLayer (fst (rebuildLayer demo (Fin 0))) (Fin 0) demoRnd) = Inr e' \<and>
      voxels e' ! 0 =
        bounce (Fin (- 12))
          (flight (flightTarget (rejectLayer (fst (rebuildLayer demo (Fin 0))) (Fin 0) demoRnd) 0
                    (voxels (rejectLayer (fst (rebuildLayer demo (Fin 0))) (Fin 0) demoRnd) ! 0))
             (voxels (rejectLayer (fst (rebuildLayer demo (Fin 0))) (Fin 0) demoRnd) ! 0)))"
proof -
  let ?e = "fst (rebuildLayer demo (Fin 0))"
  let ?r = "rejectLayer ?e (Fin 0) demoRnd"
  have c: "carriers ?e (Fin 0) = [0]"
    using carriers_voxels [of ?e demo "Fin 0"] rebuildLayer_frame [of demo "Fin 0"] carriers_demo(1)
    by simp
  have a: "set (activeRebuildIndices ?e) = {0}" "set (rejectingIndices ?e) = {}"
    using rebuildLayer_sets [of demo "Fin 0"] carriers_demo(1) demo_sets by simp_all
  have s: "set (activeRebuildIndices ?r) = {0}" "set (rejectingIndices ?r) = {0}"
    "state ?r = REJECTING" "length (voxels ?r) = 3"
    using rejectLayer_sets [of ?e "Fin 0" demoRnd] c a rebuildLayer_frame [of demo "Fin 0"] demo_length
    by simp_all
  have w: "wellFormed ?r"
    using wellFormed_rejectLayer [OF wellFormed_rebuildLayer [OF wellFormed_demo]] .
  obtain e' where e': "updatePhysics (Fin (- 12)) ?r = Inr e'"
    and n: "\<forall>j < length (voxels ?r). voxels e' ! j = frameVoxel (Fin (- 12)) ?r j"
    using updatePhysics_nth [OF w, of "Fin (- 12)"] s by auto
  have "voxels e' ! 0 = bounce (Fin (- 12)) (flight (flightTarget ?r 0 (voxels ?r ! 0)) (voxels ?r ! 0))"
    using n s by (simp add: frameVoxel_def Let_def)
  then show ?thesis using s e' by simp
qed

text \<open>
  Claim C6, as amended. After \<^verbatim>\<open>rejectLayer\<close> on a well-formed engine, any number of
  frames run without error and leave the mode \<open>REJECTING\<close>; when the 800 ms have then
  passed, the mode is \<open>INTERACTIVE_REBUILD\<close> and the rejecting set is empty. The callback
  reverts the mode and empties the set whenever it finds the mode \<open>REJECTING\<close>, and changes
  nothing whenever it finds another mode; in particular, after \<^verbatim>\<open>loadInitialModel\<close>
  the passing of any time changes the clock and the pending timers only.
\<close>

theorem reject_timer:
  "(wellFormed e \<longrightarrow>
      (\<exists>e1. ticks n F (rejectLayer e T rnd) = Inr e1 \<and>
            state e1 = REJECTING \<and>
            state (elapse 800 e1) = INTERACTIVE_REBUILD \<and>
            rejectingIndices (elapse 800 e1) = [])) \<and>
   (state e2 = REJECTING \<longrightarrow>
      state (rejectTimeout e2) = INTERACTIVE_REBUILD \<and> rejectingIndices (rejectTimeout e2) = []) \<and>
   (state e2 \<noteq> REJECTING \<longrightarrow> rejectTimeout e2 = e2) \<and>
   elapse d (loadInitialModel e3 data rnd') =
     (loadInitialModel e3 data rnd')
       \<lparr>now := now e3 + d, timeouts := filter (\<lambda>u. \<not> u \<le> now e3 + d) (timeouts e3)\<rparr>"
proof (intro conjI impI)
  assume w: "wellFormed e"
  obtain e1 where e1: "ticks n F (rejectLayer e T rnd) = Inr e1"
    using ticks_total [OF wellFormed_rejectLayer [OF w]] by blast
  have f: "state e1 = REJECTING" "timeouts e1 = timeouts e @ [now e + 800]" "now e1 = now e"
    using ticks_frame [OF e1] rejectLayer_sets [of e T rnd] by simp_all
  have "\<exists>u \<in> set (timeouts e1). u \<le> now e1 + 800" using f by simp
  from elapse_rejecting [OF f(1) this] e1 f(1)
  show "\<exists>e1. ticks n F (rejectLayer e T rnd) = Inr e1 \<and> state e1 = REJECTING \<and>
            state (elapse 800 e1) = INTERACTIVE_REBUILD \<and> rejectingIndices (elapse 800 e1) = []"
    by blast
next
  assume "state e2 = REJECTING"
  then show "state (rejectTimeout e2) = INTERACTIVE_REBUILD"
    "rejectingIndices (rejectTimeout e2) = []"
    by (simp_all add: rejectTimeout_def onStateChange_def)
next
  assume "state e2 \<noteq> REJECTING"
  then show "rejectTimeout e2 = e2" by (simp add: rejectTimeout_def)
next
  show "elapse d (loadInitialModel e3 data rnd') =
     (loadInitialModel e3 data rnd')
       \<lparr>now := now e3 + d, timeouts := filter (\<lambda>u. \<not> u \<le> now e3 + d) (timeouts e3)\<rparr>"
    using elapse_other [of "loadInitialModel e3 data rnd'" d] load_frame [of e3 data rnd'] by simp
qed

theorem reject_timer_witness:
  "wellFormed demo \<and>
   (\<exists>e1. ticks 3 (Fin (- 12)) (rejectLayer demo (Fin 0) demoRnd) = Inr e1 \<and>
         state e1 = REJECTING \<and>
         state (elapse 800 e1) = INTERACTIVE_REBUILD \<and> rejectingIndices (elapse 800 e1) = []) \<and>
   state (rejectLayer demo (Fin 0) demoRnd) = REJECTING \<and>
   state (rejectTimeout (rejectLayer demo (Fin 0) demoRnd)) = INTERACTIVE_REBUILD \<and>
   state demo \<noteq> REJECTING \<and> rejectTimeout demo = demo"
  using reject_timer [of demo 3 "Fin (- 12)" "Fin 0" demoRnd "rejectLayer demo (Fin 0) demoRnd"]
    reject_timer [of demo 3 "Fin (- 12)" "Fin 0" demoRnd demo]
    wellFormed_demo demo_state rejectLayer_sets [of demo "Fin 0" demoRnd]
  by simp

text \<open>
  Claim C6 as stated fails in the run \<open>staleRun\<close>: \<^verbatim>\<open>rebuildLayer\<close> has changed the mode
  between the first \<^verbatim>\<open>rejectLayer\<close> and the firing of its timer at 800 ms, yet the
  firing changes the mode and empties the rejecting set, 600 ms after the second
  \<^verbatim>\<open>rejectLayer\<close>.
\<close>

theorem stale_timer_not_noop:
  "state (fst (rebuildLayer (elapse 100 (rejectLayer demo (Fin 0) demoRnd)) (Fin 0))) = INTERACTIVE_REBUILD \<and>
   now staleRun = 799 \<and> timeouts staleRun = [800, 1000] \<and>
   state staleRun = REJECTING \<and> rejectingIndices staleRun = [1] \<and>
   state (elapse 1 staleRun) = INTERACTIVE_REBUILD \<and>
   rejectingIndices (elapse 1 staleRun) = [] \<and>
   timeouts (elapse 1 staleRun) = [1000]"
proof -
  note evals = demo_def newEngine_def demoData_def demoRnd_def loadInitialModel_def createVoxels_def
    createVoxel_def onStateChange_def onCountChange_def Let_def rejectLayer_def rebuildLayer_def
    elapse_def rejectTimeout_def set_add_def set_delete_def strict_eq_def staleRun_def
  have a: "state (fst (rebuildLayer (elapse 100 (rejectLayer demo (Fin 0) demoRnd)) (Fin 0))) =
             INTERACTIVE_REBUILD"
    using rebuildLayer_frame by simp
  have b: "now staleRun = 799 \<and> timeouts staleRun = [800, 1000] \<and> state staleRun = REJECTING \<and>
           rejectingIndices staleRun = [1]"
    by (simp add: evals)
  have c: "state (elapse 1 staleRun) = INTERACTIVE_REBUILD \<and> rejectingIndices (elapse 1 staleRun) = [] \<and>
           timeouts (elapse 1 staleRun) = [1000]"
    by (simp add: evals)
  show ?thesis using a b c by simp
qed

subsection \<open>The flight to the target\<close>

lemma stuckAt_step:
  assumes "stuckAt e"
  shows "\<exists>e'. updatePhysics F e = Inr e' \<and> stuckAt e'"
proof -
  have w: "wellFormed e" and s: "state e \<noteq> STABLE" using assms by (simp_all add: stuckAt_def)
  obtain e' where a: "updatePhysics F e = Inr e'"
    and b: "\<forall>j < length (voxels e). voxels e' ! j = frameVoxel F e j"
    using updatePhysics_nth [OF w s] by blast
  have f: "frameVoxel F e 1 = voxels e ! 1"
    using assms
    by (simp add: stuckAt_def frameVoxel_def flight_def flightTarget_def Let_def
        minus_jsnum_def js_gt_def strict_neq_def strict_eq_def)
  have "voxels e' ! 1 = voxels e ! 1" using b f assms by (simp add: stuckAt_def)
  moreover have "wellFormed e'"
    using updatePhysics_frame [OF a] wellFormed_frame [of e' e] w by simp
  ultimately have "stuckAt e'"
    using updatePhysics_frame [OF a] assms by (simp add: stuckAt_def)
  then show ?thesis using a by blast
qed

lemma stuckAt_ticks: "stuckAt e \<Longrightarrow> \<exists>e'. ticks n F e = Inr e' \<and> stuckAt e'"
proof (induction n arbitrary: e)
  case 0
  then show ?case by simp
next
  case (Suc n)
  obtain e1 where a: "updatePhysics F e = Inr e1" and b: "stuckAt e1"
    using stuckAt_step [OF Suc.prems] by blast
  obtain e' where "ticks n F e1 = Inr e'" "stuckAt e'" using Suc.IH [OF b] by blast
  then show ?case using a by auto
qed

lemma stuckRun_stuck: "stuckAt stuckRun"
proof -
  let ?s1 = "fst (rebuildLayer demo (Fin 0))"
  have w1: "wellFormed ?s1" using wellFormed_rebuildLayer [OF wellFormed_demo] .
  have f1: "voxels ?s1 = voxels demo" "rebuildTargets ?s1 = []" "state ?s1 = INTERACTIVE_REBUILD"
    using rebuildLayer_frame [of demo "Fin 0"] demo_targets by simp_all
  have a1: "set (activeRebuildIndices ?s1) = {0}" "set (rejectingIndices ?s1) = {}"
    using rebuildLayer_sets [of demo "Fin 0"] carriers_demo(1) demo_sets by simp_all
  obtain e where e: "updatePhysics (Fin (- 12)) ?s1 = Inr e"
    and n: "\<forall>j < length (voxels ?s1). voxels e ! j = frameVoxel (Fin (- 12)) ?s1 j"
    using updatePhysics_nth [OF w1, of "Fin (- 12)"] f1 by auto
  have fe: "state e = INTERACTIVE_REBUILD" "rebuildTargets e = []" "length (voxels e) = 3"
    "wellFormed e"
    using updatePhysics_frame [OF e] f1 demo_length wellFormed_frame [of e ?s1] w1 by simp_all
  have v1: "voxels e ! 1 = rubble (Fin (- 12)) (voxels demo ! 1)"
    using n f1 a1 demo_length by (simp add: frameVoxel_def Let_def)
  have r: "stuckRun = fst (rebuildLayer e (Fin 1))"
    using e by (simp add: stuckRun_def)
  have c: "carriers e (Fin 1) = [1]"
    using carriers_tags [OF updatePhysics_tags [OF w1 e], of "Fin 1"]
      carriers_voxels [OF f1(1), of "Fin 1"] carriers_demo(2)
    by simp
  have "1 \<in> set (activeRebuildIndices stuckRun)"
    unfolding r using rebuildLayer_sets [of e "Fin 1"] c by simp
  moreover have "wellFormed stuckRun"
    unfolding r using wellFormed_rebuildLayer [OF fe(4)] .
  moreover have "voxels stuckRun = voxels e" "rebuildTargets stuckRun = []"
    "state stuckRun = INTERACTIVE_REBUILD"
    unfolding r using rebuildLayer_frame [of e "Fin 1"] fe by simp_all
  moreover have "v_x (voxels e ! 1) = Fin 1 \<and> v_y (voxels e ! 1) = Fin (124 / 25) \<and>
      v_z (voxels e ! 1) = Fin 0 \<and> originalX (voxels e ! 1) = Fin 1 \<and>
      originalY (voxels e ! 1) = Fin 5 \<and> originalZ (voxels e ! 1) = Fin 0"
    unfolding v1 demo_voxel1 by (simp add: rubble_def Let_def minus_jsnum_def zero_jsnum_def)
  ultimately show ?thesis using fe by (simp add: stuckAt_def)
qed

text \<open>
  Claim C5, at an input where it fails. In \<open>stuckRun\<close> voxel 1 is in the active-flight set
  in mode \<open>INTERACTIVE_REBUILD\<close>, at \<open>(1, 4.96, 0)\<close> with target \<open>(1, 5, 0)\<close>. The squared
  distance is below 0.05, so the voxel is not moved, and the snap is guarded by
  \<^verbatim>\<open>v.x !== t.x\<close>, which is false: after any number of frames the voxel is where it was,
  short of its target.
\<close>

theorem flight_stuck_short_of_target:
  "state stuckRun = INTERACTIVE_REBUILD \<and> 1 \<in> set (activeRebuildIndices stuckRun) \<and>
   (\<forall>n. \<exists>e'. ticks n (Fin (- 12)) stuckRun = Inr e' \<and>
      state e' = INTERACTIVE_REBUILD \<and> 1 \<in> set (activeRebuildIndices e') \<and>
      flightTarget e' 1 (voxels e' ! 1) = (Fin 1, Fin 5, Fin 0) \<and>
      v_x (voxels e' ! 1) = Fin 1 \<and> v_y (voxels e' ! 1) = Fin (124 / 25) \<and>
      v_z (voxels e' ! 1) = Fin 0)"
proof -
  have "\<exists>e'. ticks n (Fin (- 12)) stuckRun = Inr e' \<and>
      state e' = INTERACTIVE_REBUILD \<and> 1 \<in> set (activeRebuildIndices e') \<and>
      flightTarget e' 1 (voxels e' ! 1) = (Fin 1, Fin 5, Fin 0) \<and>
      v_x (voxels e' ! 1) = Fin 1 \<and> v_y (voxels e' ! 1) = Fin (124 / 25) \<and>
      v_z (voxels e' ! 1) = Fin 0" for n
  proof -
    obtain e' where "ticks n (Fin (- 12)) stuckRun = Inr e'" "stuckAt e'"
      using stuckAt_ticks [OF stuckRun_stuck] by blast
    then show ?thesis by (auto simp: stuckAt_def flightTarget_def)
  qed
  then show ?thesis using stuckRun_stuck by (simp add: stuckAt_def)
qed

subsection \<open>getStepCentroids\<close>

lemma addToSums_other:
  "v_stepIndex v \<noteq> k \<Longrightarrow> addToSums v m k = m k"
  by (simp add: addToSums_def split: prod.splits option.splits)

lemma addToSums_same:
  "js_ge k 0 \<Longrightarrow> v_stepIndex v = k \<Longrightarrow>
   addToSums v m k =
     (case (case m k of None \<Rightarrow> (0, 0, 0, 0) | Some s \<Rightarrow> s) of
        (sx, sy, sz, c) \<Rightarrow> Some (sx + v_x v, sy + v_y v, sz + v_z v, c + 1))"
  by (simp add: addToSums_def split: prod.splits option.splits)

lemma fold_addToSums:
  assumes k: "js_ge k 0"
  shows "fold addToSums vs m k =
     (if filter (\<lambda>v. v_stepIndex v = k) vs = [] then m k
      else (case (case m k of None \<Rightarrow> (0, 0, 0, 0) | Some s \<Rightarrow> s) of
        (sx, sy, sz, c) \<Rightarrow>
          Some (foldl (+) sx (map v_x (filter (\<lambda>v. v_stepIndex v = k) vs)),
                foldl (+) sy (map v_y (filter (\<lambda>v. v_stepIndex v = k) vs)),
                foldl (+) sz (map v_z (filter (\<lambda>v. v_stepIndex v = k) vs)),
                c + length (filter (\<lambda>v. v_stepIndex v = k) vs))))"
proof (induction vs arbitrary: m)
  case Nil
  show ?case by simp
next
  case (Cons v vs)
  show ?case
  proof (cases "v_stepIndex v = k")
    case True
    show ?thesis
      using Cons.IH [of "addToSums v m"] addToSums_same [OF k True, of m] True
      by (simp split: prod.splits option.splits)
  next
    case False
    show ?thesis
      using Cons.IH [of "addToSums v m"] addToSums_other [OF False, of m] False
      by simp
  qed
qed

lemma js_ge_nat: "js_ge (Fin (real i)) 0"
  by (simp add: js_ge_def zero_jsnum_def)

lemma foldl_Fin: "foldl (+) (Fin a) (map Fin rs) = Fin (a + sum_list rs)"
  by (induction rs arbitrary: a) (simp_all add: add.assoc)

lemma averageOf_finite:
  "rs \<noteq> [] \<Longrightarrow> averageOf (map Fin rs) = Fin (sum_list rs / real (length rs))"
  by (simp add: averageOf_def zero_jsnum_def foldl_Fin)


lemma isFinite_realOf: "isFinite n \<Longrightarrow> Fin (realOf n) = n"
  by (cases n) simp_all

lemma averageOf_realOf:
  assumes "xs \<noteq> []" "list_all isFinite xs"
  shows "averageOf xs = Fin (meanOf (map realOf xs))"
proof -
  have "map Fin (map realOf xs) = xs"
    using assms(2) by (induction xs) (simp_all add: isFinite_realOf)
  then show ?thesis
    using averageOf_finite [of "map realOf xs"] assms(1) by (simp add: meanOf_def)
qed

lemma getStepCentroids_nth:
  "i < N \<Longrightarrow>
   getStepCentroids e N project clientWidth clientHeight ! i =
     (if carrying e i = [] then placeholder
      else projected project clientWidth clientHeight (centroidOf (carrying e i)))"
proof -
  assume i: "i < N"
  have "getStepCentroids e N project clientWidth clientHeight ! i =
        centroidEntry project clientWidth clientHeight
          (fold addToSums (voxels e) Map.empty (Fin (real i)))"
    using i by (simp add: getStepCentroids_def Let_def)
  then show ?thesis
    using fold_addToSums [OF js_ge_nat [of i], of "voxels e" Map.empty]
    by (simp add: centroidEntry_def carrying_def centroidOf_def averageOf_def)
qed

lemma centroidOf_mean:
  assumes "vs \<noteq> []" "list_all finitePosition vs"
  shows "centroidOf vs =
           (Fin (meanOf (map (\<lambda>v. realOf (v_x v)) vs)),
            Fin (meanOf (map (\<lambda>v. realOf (v_y v)) vs)),
            Fin (meanOf (map (\<lambda>v. realOf (v_z v)) vs)))"
proof -
  have f: "list_all isFinite (map v_x vs)" "list_all isFinite (map v_y vs)"
    "list_all isFinite (map v_z vs)"
    using assms(2) by (simp_all add: list_all_iff finitePosition_def)
  show ?thesis
    using assms(1) f averageOf_realOf [of "map v_x vs"]
      averageOf_realOf [of "map v_y vs"] averageOf_realOf [of "map v_z vs"]
    by (simp add: centroidOf_def comp_def)
qed

lemma pairDemo_voxels: "voxels pairDemo = createVoxels pairData demoRnd"
  by (simp add: pairDemo_def loadInitialModel_def onStateChange_def onCountChange_def Let_def)

lemma carrying_pairDemo:
  "carrying pairDemo 1 = []"
  "map (\<lambda>v. realOf (v_x v)) (carrying pairDemo 0) = [1, 3]"
  "map (\<lambda>v. realOf (v_y v)) (carrying pairDemo 0) = [5, 7]"
  "map (\<lambda>v. realOf (v_z v)) (carrying pairDemo 0) = [0, 0]"
  "list_all finitePosition (carrying pairDemo 0)"
  by (simp_all add: carrying_def pairDemo_voxels createVoxels_def createVoxel_def pairData_def
      finitePosition_def)

text \<open>
  Claim C9. \<^verbatim>\<open>getStepCentroids(N)\<close> leaves the engine as it is and returns \<open>N\<close> entries.
  Entry \<open>i\<close> is \<open>(0, 0, not visible)\<close> when no voxel carries tag \<open>i\<close>. Otherwise, with
  \<open>(px, py, pz)\<close> the projection of the average position of exactly the voxels that carry
  tag \<open>i\<close>, it is the point \<open>((px / 2 + 1 / 2) * width, (1 / 2 - py / 2) * height)\<close>,
  visible when \<open>pz < 1\<close>, \<open>|px| < 1.1\<close> and \<open>|py| < 1.1\<close>; this is stated in the arithmetic of
  the numbers and, for finite values, in real arithmetic. For voxels at finite positions
  the average position is the arithmetic mean of each coordinate, the sum over the group
  divided by its size, and the entry is that point for the projection of this mean.
\<close>

theorem centroids_by_tag:
  "fst (queryStepCentroids e N project clientWidth clientHeight) = e \<and>
   length (snd (queryStepCentroids e N project clientWidth clientHeight)) = N \<and>
   (\<forall>i < N.
      (carrying e i = [] \<longrightarrow>
         snd (queryStepCentroids e N project clientWidth clientHeight) ! i =
           \<lparr> sp_x = Fin 0, sp_y = Fin 0, visible = False \<rparr>) \<and>
      (carrying e i \<noteq> [] \<longrightarrow>
         (\<forall>px py pz. project (centroidOf (carrying e i)) = (px, py, pz) \<longrightarrow>
            snd (queryStepCentroids e N project clientWidth clientHeight) ! i =
              \<lparr> sp_x = (px * Fin 0.5 + Fin 0.5) * clientWidth,
                sp_y = (- (py * Fin 0.5) + Fin 0.5) * clientHeight,
                visible = (js_lt pz (Fin 1) \<and> js_lt (abs px) (Fin 1.1) \<and>
                           js_lt (abs py) (Fin 1.1)) \<rparr>) \<and>
         (\<forall>px py pz w h.
            project (centroidOf (carrying e i)) = (Fin px, Fin py, Fin pz) \<and>
            clientWidth = Fin w \<and> clientHeight = Fin h \<longrightarrow>
            snd (queryStepCentroids e N project clientWidth clientHeight) ! i =
              \<lparr> sp_x = Fin ((px * 0.5 + 0.5) * w),
                sp_y = Fin ((- (py * 0.5) + 0.5) * h),
                visible = (pz < 1 \<and> \<bar>px\<bar> < 1.1 \<and> \<bar>py\<bar> < 1.1) \<rparr>)) \<and>
      (carrying e i \<noteq> [] \<and> list_all finitePosition (carrying e i) \<longrightarrow>
         centroidOf (carrying e i) =
           (Fin (meanOf (map (\<lambda>v. realOf (v_x v)) (carrying e i))),
            Fin (meanOf (map (\<lambda>v. realOf (v_y v)) (carrying e i))),
            Fin (meanOf (map (\<lambda>v. realOf (v_z v)) (carrying e i)))) \<and>
         (\<forall>px py pz w h.
            project (Fin (sum_list (map (\<lambda>v. realOf (v_x v)) (carrying e i)) /
                          real (length (carrying e i))),
                     Fin (sum_list (map (\<lambda>v. realOf (v_y v)) (carrying e i)) /
                          real (length (carrying e i))),
                     Fin (sum_list (map (\<lambda>v. realOf (v_z v)) (carrying e i)) /
                          real (length (carrying e i)))) = (Fin px, Fin py, Fin pz) \<and>
            clientWidth = Fin w \<and> clientHeight = Fin h \<longrightarrow>
            snd (queryStepCentroids e N project clientWidth clientHeight) ! i =
              \<lparr> sp_x = Fin ((px * 0.5 + 0.5) * w),
                sp_y = Fin ((- (py * 0.5) + 0.5) * h),
                visible = (pz < 1 \<and> \<bar>px\<bar> < 1.1 \<and> \<bar>py\<bar> < 1.1) \<rparr>)))"
proof (intro conjI allI impI)
  show "fst (queryStepCentroids e N project clientWidth clientHeight) = e"
    by (simp add: queryStepCentroids_def)
  show "length (snd (queryStepCentroids e N project clientWidth clientHeight)) = N"
    by (simp add: queryStepCentroids_def getStepCentroids_def Let_def)
next
  fix i assume "i < N" "carrying e i = []"
  then show "snd (queryStepCentroids e N project clientWidth clientHeight) ! i =
           \<lparr> sp_x = Fin 0, sp_y = Fin 0, visible = False \<rparr>"
    using getStepCentroids_nth [of i N e project clientWidth clientHeight]
    by (simp add: queryStepCentroids_def placeholder_def zero_jsnum_def)
next
  fix i px py pz
  assume "i < N" "carrying e i \<noteq> []" "project (centroidOf (carrying e i)) = (px, py, pz)"
  then show "snd (queryStepCentroids e N project clientWidth clientHeight) ! i =
              \<lparr> sp_x = (px * Fin 0.5 + Fin 0.5) * clientWidth,
                sp_y = (- (py * Fin 0.5) + Fin 0.5) * clientHeight,
                visible = (js_lt pz (Fin 1) \<and> js_lt (abs px) (Fin 1.1) \<and>
                           js_lt (abs py) (Fin 1.1)) \<rparr>"
    using getStepCentroids_nth [of i N e project clientWidth clientHeight]
    by (simp add: queryStepCentroids_def projected_def)
next
  fix i px py pz w h
  assume "i < N" "carrying e i \<noteq> []"
    "project (centroidOf (carrying e i)) = (Fin px, Fin py, Fin pz) \<and>
     clientWidth = Fin w \<and> clientHeight = Fin h"
  then show "snd (queryStepCentroids e N project clientWidth clientHeight) ! i =
              \<lparr> sp_x = Fin ((px * 0.5 + 0.5) * w),
                sp_y = Fin ((- (py * 0.5) + 0.5) * h),
                visible = (pz < 1 \<and> \<bar>px\<bar> < 1.1 \<and> \<bar>py\<bar> < 1.1) \<rparr>"
    using getStepCentroids_nth [of i N e project clientWidth clientHeight]
    by (simp add: queryStepCentroids_def projected_def)
next
  fix i
  assume "i < N" and a: "carrying e i \<noteq> [] \<and> list_all finitePosition (carrying e i)"
  then show "centroidOf (carrying e i) =
           (Fin (meanOf (map (\<lambda>v. realOf (v_x v)) (carrying e i))),
            Fin (meanOf (map (\<lambda>v. realOf (v_y v)) (carrying e i))),
            Fin (meanOf (map (\<lambda>v. realOf (v_z v)) (carrying e i))))"
    by (simp add: centroidOf_mean)
next
  fix i px py pz w h
  assume i: "i < N" and a: "carrying e i \<noteq> [] \<and> list_all finitePosition (carrying e i)"
    and p: "project (Fin (sum_list (map (\<lambda>v. realOf (v_x v)) (carrying e i)) /
                          real (length (carrying e i))),
                     Fin (sum_list (map (\<lambda>v. realOf (v_y v)) (carrying e i)) /
                          real (length (carrying e i))),
                     Fin (sum_list (map (\<lambda>v. realOf (v_z v)) (carrying e i)) /
                          real (length (carrying e i)))) = (Fin px, Fin py, Fin pz) \<and>
            clientWidth = Fin w \<and> clientHeight = Fin h"
  have "project (centroidOf (carrying e i)) = (Fin px, Fin py, Fin pz)"
    using a p by (simp add: centroidOf_mean meanOf_def)
  then show "snd (queryStepCentroids e N project clientWidth clientHeight) ! i =
              \<lparr> sp_x = Fin ((px * 0.5 + 0.5) * w),
                sp_y = Fin ((- (py * 0.5) + 0.5) * h),
                visible = (pz < 1 \<and> \<bar>px\<bar> < 1.1 \<and> \<bar>py\<bar> < 1.1) \<rparr>"
    using i a p getStepCentroids_nth [of i N e project clientWidth clientHeight]
    by (simp add: queryStepCentroids_def projected_def)
qed

theorem centroids_by_tag_witness:
  "fst (queryStepCentroids pairDemo 2 pairProject (Fin 800) (Fin 600)) = pairDemo \<and>
   length (snd (queryStepCentroids pairDemo 2 pairProject (Fin 800) (Fin 600))) = 2 \<and>
   (1 :: nat) < 2 \<and> carrying pairDemo 1 = [] \<and>
   snd (queryStepCentroids pairDemo 2 pairProject (Fin 800) (Fin 600)) ! 1 =
     \<lparr> sp_x = Fin 0, sp_y = Fin 0, visible = False \<rparr> \<and>
   (0 :: nat) < 2 \<and> carrying pairDemo 0 \<noteq> [] \<and> list_all finitePosition (carrying pairDemo 0) \<and>
   centroidOf (carrying pairDemo 0) = (Fin 2, Fin 6, Fin 0) \<and>
   pairProject (centroidOf (carrying pairDemo 0)) = (Fin 0.25, Fin 0.75, Fin 0) \<and>
   pairProject (Fin ((1 + 3) / 2), Fin ((5 + 7) / 2), Fin ((0 + 0) / 2)) =
     (Fin 0.25, Fin 0.75, Fin 0) \<and>
   snd (queryStepCentroids pairDemo 2 pairProject (Fin 800) (Fin 600)) ! 0 =
     \<lparr> sp_x = Fin 500, sp_y = Fin 75, visible = True \<rparr>"
proof -
  note t = centroids_by_tag [of pairDemo 2 pairProject "Fin 800" "Fin 600"]
  note q = t [THEN conjunct2, THEN conjunct2, rule_format]
  have n: "carrying pairDemo 0 \<noteq> []" using carrying_pairDemo(2) by auto
  have l: "real (length (carrying pairDemo 0)) = 2"
    using arg_cong [OF carrying_pairDemo(2), of length] by simp
  have c: "centroidOf (carrying pairDemo 0) = (Fin 2, Fin 6, Fin 0)"
    using q [of 0, THEN conjunct2, THEN conjunct2] n carrying_pairDemo(5)
    by (simp add: meanOf_def carrying_pairDemo l)
  have m: "pairProject (Fin ((1 + 3) / 2), Fin ((5 + 7) / 2), Fin ((0 + 0) / 2)) =
     (Fin 0.25, Fin 0.75, Fin 0)"
    by (simp add: pairProject_def)
  have d: "snd (queryStepCentroids pairDemo 2 pairProject (Fin 800) (Fin 600)) ! 0 =
     \<lparr> sp_x = Fin 500, sp_y = Fin 75, visible = True \<rparr>"
    using q [of 0, THEN conjunct2, THEN conjunct2, THEN mp, THEN conjunct2, rule_format,
        of "0.25" "0.75" 0 800 600] n carrying_pairDemo(5) m
    by (simp add: carrying_pairDemo l)
  have p: "pairProject (centroidOf (carrying pairDemo 0)) = (Fin 0.25, Fin 0.75, Fin 0)"
    unfolding c by (simp add: pairProject_def)
  have z: "(0 :: nat) < 2" "(1 :: nat) < 2" by simp_all
  have r: "\<forall>px py pz w h.
            pairProject (centroidOf (carrying pairDemo 0)) = (Fin px, Fin py, Fin pz) \<and>
            Fin 800 = Fin w \<and> Fin 600 = Fin h \<longrightarrow>
            snd (queryStepCentroids pairDemo 2 pairProject (Fin 800) (Fin 600)) ! 0 =
              \<lparr> sp_x = Fin ((px * 0.5 + 0.5) * w),
                sp_y = Fin ((- (py * 0.5) + 0.5) * h),
                visible = (pz < 1 \<and> \<bar>px\<bar> < 1.1 \<and> \<bar>py\<bar> < 1.1) \<rparr>"
    using q [OF z(1), THEN conjunct2, THEN conjunct1] n by (rule mp [THEN conjunct2])
  have e0: "snd (queryStepCentroids pairDemo 2 pairProject (Fin 800) (Fin 600)) ! 0 =
     \<lparr> sp_x = Fin 500, sp_y = Fin 75, visible = True \<rparr>"
    using r [rule_format, of "0.25" "0.75" 0 800 600] p by simp
  have e1: "snd (queryStepCentroids pairDemo 2 pairProject (Fin 800) (Fin 600)) ! 1 =
     \<lparr> sp_x = Fin 0, sp_y = Fin 0, visible = False \<rparr>"
    using q [OF z(2), THEN conjunct1] carrying_pairDemo(1) by simp
  show ?thesis
    using t [THEN conjunct1] t [THEN conjunct2, THEN conjunct1] n c p m d e0 e1
      carrying_pairDemo(1,5)
    by simp
qed


subsection \<open>Where the two sets stay disjoint\<close>

text \<open>
  Loading, dismantling, \<^verbatim>\<open>rebuildLayer\<close>, the timer callback and a frame keep the two sets
  disjoint; \<^verbatim>\<open>rejectLayer(T)\<close> does exactly when no voxel that carries \<open>T\<close> is in flight.
  While they are disjoint, a frame applies at most one branch to a voxel.
\<close>

lemma disjoint_load: "disjointSets (loadInitialModel e data rnd)"
  by (simp add: disjointSets_def loadInitialModel_def Let_def)

lemma disjoint_dismantle: "disjointSets e \<Longrightarrow> disjointSets (dismantle e rnd)"
  by (simp add: disjointSets_def dismantle_def Let_def)

lemma disjoint_rebuildLayer: "disjointSets e \<Longrightarrow> disjointSets (fst (rebuildLayer e T))"
  using rebuildLayer_sets [of e T] by (auto simp: disjointSets_def)

lemma disjoint_rejectTimeout: "disjointSets e \<Longrightarrow> disjointSets (rejectTimeout e)"
  by (simp add: disjointSets_def rejectTimeout_def onStateChange_def)

lemma disjoint_updatePhysics:
  "updatePhysics F e = Inr e' \<Longrightarrow> disjointSets e \<Longrightarrow> disjointSets e'"
  using updatePhysics_frame [of F e e'] by (simp add: disjointSets_def)

lemma disjoint_rejectLayer:
  "disjointSets (rejectLayer e T rnd) =
     (disjointSets e \<and> set (carriers e T) \<inter> set (activeRebuildIndices e) = {})"
  using rejectLayer_sets [of e T rnd] by (auto simp: disjointSets_def)

lemma frameVoxel_exclusive:
  "disjointSets e \<Longrightarrow>
   frameVoxel F e j = voxels e ! j \<or>
   frameVoxel F e j = rubble F (voxels e ! j) \<or>
   frameVoxel F e j = flight (flightTarget e j (voxels e ! j)) (voxels e ! j) \<or>
   frameVoxel F e j = bounce F (voxels e ! j)"
  by (auto simp: disjointSets_def frameVoxel_def Let_def)

text \<open>
  A voxel in flight whose \<open>x\<close> is that of its target and whose \<open>y\<close> is not stays so: the
  flight branch moves it a fraction of the way or leaves it where it is, and never snaps
  it.
\<close>

lemma flight_short_of_target:
  assumes "v_x v = Fin a" "v_y v = Fin b" "v_z v = Fin c" "b \<noteq> tb"
  shows "\<exists>b' c'. v_x (flight (Fin a, Fin tb, Fin tc) v) = Fin a \<and>
                 v_y (flight (Fin a, Fin tb, Fin tc) v) = Fin b' \<and>
                 v_z (flight (Fin a, Fin tb, Fin tc) v) = Fin c' \<and> b' \<noteq> tb"
proof (cases "js_gt ((Fin a - v_x v) * (Fin a - v_x v) + (Fin tb - v_y v) * (Fin tb - v_y v) +
                     (Fin tc - v_z v) * (Fin tc - v_z v)) (Fin 0.05)")
  case True
  have "b + (tb - b) * 0.12 \<noteq> tb"
  proof
    assume "b + (tb - b) * 0.12 = tb"
    then have "tb = b" by (simp add: field_simps)
    then show False using assms(4) by simp
  qed
  then show ?thesis
    using True assms by (simp add: flight_def Let_def minus_jsnum_def)
next
  case False
  then show ?thesis
    using assms by (simp add: flight_def Let_def minus_jsnum_def strict_neq_def strict_eq_def)
qed


section \<open>Properties of the import and the export\<close>

subsection \<open>The import normalises every entry\<close>

lemma getProp_nonnull: "v \<noteq> JNull \<Longrightarrow> getProp v k = Inr (field v k)"
  by (cases v) (simp_all add: field_def)

lemma importEntry_nonnull:
  assumes "v \<noteq> JNull"
  shows "importEntry toNum v =
     Inr \<lparr> vd_x = orZero (Number toNum (field v ''x'')),
           vd_y = orZero (Number toNum (field v ''y'')),
           vd_z = orZero (Number toNum (field v ''z'')),
           vd_color = importColor (colorValue v),
           vd_stepIndex =
             Some (case field v ''stepIndex'' of None \<Rightarrow> Fin (- 1) | Some j \<Rightarrow> Number toNum (Some j)) \<rparr>"
  using getProp_nonnull [OF assms]
  by (simp add: importEntry_def colorValue_def)













subsection \<open>The export is read back by the import\<close>

lemma hexDigit_value: "d < 16 \<Longrightarrow> hexValue (hexDigit d) = Some d"
proof -
  assume "d < 16"
  then have "d \<in> set [0..<16]" by simp
  moreover have "[0..<16] = [0, 1, 2, 3, 4, 5, 6, 7, 8, 9, 10, 11, 12, 13, 14, 15 :: nat]"
    by (simp add: upt_rec)
  ultimately have "d \<in> set [0, 1, 2, 3, 4, 5, 6, 7, 8, 9, 10, 11, 12, 13, 14, 15 :: nat]"
    by (simp only:)
  then show ?thesis
    by (auto simp: hexDigit_def hexValue_def)
qed

lemma hexValue_plain:
  "hexValue c \<noteq> None \<Longrightarrow>
   \<not> isWhiteSpace c \<and> c \<noteq> CHR ''-'' \<and> c \<noteq> CHR ''+'' \<and> c \<noteq> CHR ''x'' \<and> c \<noteq> CHR ''X''"
  by (auto simp: hexValue_def isWhiteSpace_def Let_def split: if_splits)

lemma hexNumber_snoc:
  "hexNumber (z @ [c]) = 16 * hexNumber z + (case hexValue c of Some d \<Rightarrow> d | None \<Rightarrow> 0)"
  by (simp add: hexNumber_def)

lemma toString16_digits: "\<forall>c \<in> set (toString16 n). hexValue c \<noteq> None"
proof (induction n rule: toString16.induct)
  case (1 n)
  show ?case
  proof (cases "n < 16")
    case True
    then show ?thesis
      using hexDigit_value [of n] by (subst toString16.simps) simp
  next
    case False
    have "hexValue (hexDigit (n mod 16)) \<noteq> None"
      using hexDigit_value [of "n mod 16"] by simp
    then show ?thesis
      using 1 False by (subst toString16.simps) auto
  qed
qed

lemma toString16_number: "hexNumber (toString16 n) = n"
proof (induction n rule: toString16.induct)
  case (1 n)
  show ?case
  proof (cases "n < 16")
    case True
    then show ?thesis
      using hexDigit_value [of n] by (subst toString16.simps) (simp add: hexNumber_def)
  next
    case False
    have "hexValue (hexDigit (n mod 16)) = Some (n mod 16)"
      using hexDigit_value [of "n mod 16"] by simp
    then show ?thesis
      using 1 False by (subst toString16.simps) (simp add: hexNumber_snoc)
  qed
qed

lemma toString16_nonempty: "toString16 n \<noteq> []"
  by (subst toString16.simps) simp

lemma toString16_length: "n < 16 ^ k \<Longrightarrow> 0 < k \<Longrightarrow> length (toString16 n) \<le> k"
proof (induction n arbitrary: k rule: toString16.induct)
  case (1 n)
  show ?case
  proof (cases "n < 16")
    case True
    then show ?thesis using "1.prems" by (subst toString16.simps) simp
  next
    case False
    obtain j where j: "k = Suc j" using "1.prems"(2) by (cases k) auto
    have "n div 16 < 16 ^ j" using "1.prems"(1) j by (simp add: less_mult_imp_div_less mult.commute)
    moreover have "0 < j" using False "1.prems"(1) j by (cases j) auto
    ultimately have "length (toString16 (n div 16)) \<le> j" using "1.IH" [OF False] by simp
    then show ?thesis using False j by (subst toString16.simps) simp
  qed
qed

lemma hexNumber_zeros: "hexNumber (replicate k (CHR ''0'') @ z) = hexNumber z"
proof -
  have "foldl (\<lambda>a c. 16 * a + (case hexValue c of Some d \<Rightarrow> d | None \<Rightarrow> 0)) 0
          (replicate k (CHR ''0'')) = 0"
  proof (induction k)
    case 0
    show ?case by simp
  next
    case (Suc k)
    have "hexValue (CHR ''0'') = Some 0" by (simp add: hexValue_def)
    then show ?case using Suc by simp
  qed
  then show ?thesis by (simp add: hexNumber_def)
qed

lemma parseInt16_hex:
  assumes "z \<noteq> []" "\<forall>c \<in> set z. hexValue c \<noteq> None"
  shows "parseInt16 z = Fin (real (hexNumber z))"
proof -
  obtain c rest where z: "z = c # rest" using assms(1) by (cases z) auto
  have c: "\<not> isWhiteSpace c" "c \<noteq> CHR ''-''" "c \<noteq> CHR ''+''"
    using hexValue_plain [of c] assms(2) z by simp_all
  have p: "take 2 z \<noteq> ''0x''" "take 2 z \<noteq> ''0X''"
    using hexValue_plain [of "hd rest"] assms(2) z by (cases rest; auto)+
  have t: "takeWhile (\<lambda>c. hexValue c \<noteq> None) z = z"
    using assms(2) by (simp add: takeWhile_eq_all_conv)
  have d: "dropWhile isWhiteSpace z = z" using c z by simp
  have s: "take 1 z \<noteq> ''-''" "take 1 z \<noteq> ''+''" using c z by simp_all
  have s2: "(if take 1 z = ''-'' \<or> take 1 z = ''+'' then drop 1 z else z) = z"
    using s by simp
  have s3: "(if take 2 z = ''0x'' \<or> take 2 z = ''0X'' then drop 2 z else z) = z"
    using p by simp
  show ?thesis
    unfolding parseInt16_def Let_def d s2 s3 t using assms(1) s(1) by simp
qed

lemma getHexString_parse:
  assumes "getHex c < 16777216"
  shows "parseInt16 (getHexString getHex c) = Fin (real (getHex c))"
proof -
  let ?h = "toString16 (getHex c)"
  have l: "length ?h \<le> 6" using toString16_length [of "getHex c" 6] assms by simp
  have z: "''000000'' = replicate 6 (CHR ''0'')" by (simp add: numeral_eq_Suc)
  have g: "getHexString getHex c = replicate (6 - length ?h) (CHR ''0'') @ ?h"
    unfolding getHexString_def slice_last_def z using l by simp
  have "\<forall>x \<in> set (getHexString getHex c). hexValue x \<noteq> None"
    unfolding g using toString16_digits [of "getHex c"] by (auto simp: hexValue_def)
  moreover have "getHexString getHex c \<noteq> []"
    unfolding g using toString16_nonempty by simp
  ultimately have "parseInt16 (getHexString getHex c) = Fin (real (hexNumber (getHexString getHex c)))"
    using parseInt16_hex by blast
  then show ?thesis
    unfolding g by (simp add: hexNumber_zeros toString16_number)
qed



lemma stringifyNumber_finite: "isFinite n \<Longrightarrow> stringifyNumber n = JNum n"
  by (cases n) (simp_all add: stringifyNumber_def)

lemma orZero_finite: "isFinite n \<Longrightarrow> orZero n = n"
  by (cases n) (auto simp: orZero_def truthy_num_def)

lemma importColor_hex:
  assumes "getHex c < 16777216"
  shows "importColor (Some (JStr (CHR ''#'' # getHexString getHex c))) = Fin (real (getHex c))"
  using getHexString_parse [of getHex c] assms by (simp add: importColor_def isNaN_def)

lemma importEntry_voxelJson:
  assumes f: "isFinite (v_x v)" "isFinite (v_y v)" "isFinite (v_z v)" "isFinite (v_stepIndex v)"
    and h: "getHex (v_color v) < 16777216"
  shows "importEntry toNum (voxelJson getHex v) = Inr (exported getHex v)"
proof -
  let ?j = "voxelJson getHex v"
  have n: "?j \<noteq> JNull" by (simp add: voxelJson_def)
  have fx: "field ?j ''x'' = Some (JNum (v_x v))" "field ?j ''y'' = Some (JNum (v_y v))"
    "field ?j ''z'' = Some (JNum (v_z v))" "field ?j ''stepIndex'' = Some (JNum (v_stepIndex v))"
    using f by (simp_all add: voxelJson_def field_def stringifyNumber_finite)
  have fc: "colorValue ?j = Some (JStr (CHR ''#'' # getHexString getHex (v_color v)))"
    by (simp add: voxelJson_def field_def colorValue_def)
  show ?thesis
    unfolding importEntry_nonnull [OF n] fx fc importColor_hex [of getHex "v_color v", OF h] exported_def
    using f by (simp add: orZero_finite)
qed

lemma importEntries_voxelJson:
  assumes "list_all (\<lambda>v. isFinite (v_x v) \<and> isFinite (v_y v) \<and> isFinite (v_z v) \<and>
                         isFinite (v_stepIndex v)) vs"
    and "\<forall>c. getHex c < 16777216"
  shows "importEntries toNum (map (voxelJson getHex) vs) = Inr (map (exported getHex) vs)"
  using assms by (induction vs) (simp_all add: importEntry_voxelJson)

lemma createVoxel_exported:
  "createVoxel rnd (i, exported getHex v) =
     \<lparr> v_id = i, v_x = v_x v, v_y = v_y v, v_z = v_z v,
       v_color = OffsetHSL (NewColor (Fin (real (getHex (v_color v))))) 0 0
                   (Fin (rnd i) * Fin 0.05 - Fin 0.025),
       v_stepIndex = v_stepIndex v,
       originalX = v_x v, originalY = v_y v, originalZ = v_z v,
       vx = 0, vy = 0, vz = 0, rx = 0, ry = 0, rz = 0, rvx = 0, rvy = 0, rvz = 0 \<rparr>"
  by (simp add: createVoxel_def exported_def)

lemma demoGetHex_bound: "demoGetHex c < 16777216"
  by (induction c) (simp_all split: jsnum.splits)

lemma demo_finite: "finiteStore demo"
  by (simp add: finiteStore_def demo_def loadInitialModel_def onStateChange_def onCountChange_def
      Let_def createVoxels_def createVoxel_def demoData_def)

text \<open>
  Claim C7, as amended. For a store whose voxels have finite coordinates and tags (and a
  \<^verbatim>\<open>getHex\<close> that stays below \<open>2^24\<close>, as the library's does), importing the exported JSON
  hands the core one spec per voxel, in index order, with the voxel's position, its tag and
  the integer of its colour; the loaded voxels have the same positions and tags, and each
  colour is the exported one with a fresh lightness offset.
\<close>

theorem export_import_roundtrip:
  "finiteStore e \<and> (\<forall>c. getHex c < 16777216) \<longrightarrow>
     importVoxelData toNum (Inr (getJsonData getHex e)) = Inr (map (exported getHex) (voxels e)) \<and>
     length (voxels (handleJsonImport toNum e2 (Inr (getJsonData getHex e)) rnd)) = length (voxels e) \<and>
     (\<forall>i < length (voxels e).
        v_x (voxels (handleJsonImport toNum e2 (Inr (getJsonData getHex e)) rnd) ! i) = v_x (voxels e ! i) \<and>
        v_y (voxels (handleJsonImport toNum e2 (Inr (getJsonData getHex e)) rnd) ! i) = v_y (voxels e ! i) \<and>
        v_z (voxels (handleJsonImport toNum e2 (Inr (getJsonData getHex e)) rnd) ! i) = v_z (voxels e ! i) \<and>
        v_stepIndex (voxels (handleJsonImport toNum e2 (Inr (getJsonData getHex e)) rnd) ! i) =
          v_stepIndex (voxels e ! i) \<and>
        v_color (voxels (handleJsonImport toNum e2 (Inr (getJsonData getHex e)) rnd) ! i) =
          OffsetHSL (NewColor (Fin (real (getHex (v_color (voxels e ! i)))))) 0 0
            (Fin (rnd i) * Fin 0.05 - Fin 0.025))"
proof (intro impI)
  assume a: "finiteStore e \<and> (\<forall>c. getHex c < 16777216)"
  have i: "importVoxelData toNum (Inr (getJsonData getHex e)) = Inr (map (exported getHex) (voxels e))"
    using a importEntries_voxelJson [of "voxels e" getHex toNum]
    by (simp add: importVoxelData_def getJsonData_def finiteStore_def)
  have v: "voxels (handleJsonImport toNum e2 (Inr (getJsonData getHex e)) rnd) =
           createVoxels (map (exported getHex) (voxels e)) rnd"
    unfolding handleJsonImport_def i
    by (simp add: loadInitialModel_def onStateChange_def onCountChange_def Let_def)
  have n: "createVoxels (map (exported getHex) (voxels e)) rnd ! j =
           createVoxel rnd (j, exported getHex (voxels e ! j))" if "j < length (voxels e)" for j
    using that by (simp add: createVoxels_def nth_enumerate_eq)
  show "importVoxelData toNum (Inr (getJsonData getHex e)) = Inr (map (exported getHex) (voxels e)) \<and>
     length (voxels (handleJsonImport toNum e2 (Inr (getJsonData getHex e)) rnd)) = length (voxels e) \<and>
     (\<forall>i < length (voxels e).
        v_x (voxels (handleJsonImport toNum e2 (Inr (getJsonData getHex e)) rnd) ! i) = v_x (voxels e ! i) \<and>
        v_y (voxels (handleJsonImport toNum e2 (Inr (getJsonData getHex e)) rnd) ! i) = v_y (voxels e ! i) \<and>
        v_z (voxels (handleJsonImport toNum e2 (Inr (getJsonData getHex e)) rnd) ! i) = v_z (voxels e ! i) \<and>
        v_stepIndex (voxels (handleJsonImport toNum e2 (Inr (getJsonData getHex e)) rnd) ! i) =
          v_stepIndex (voxels e ! i) \<and>
        v_color (voxels (handleJsonImport toNum e2 (Inr (getJsonData getHex e)) rnd) ! i) =
          OffsetHSL (NewColor (Fin (real (getHex (v_color (voxels e ! i)))))) 0 0
            (Fin (rnd i) * Fin 0.05 - Fin 0.025))"
    unfolding v using i n by (simp add: createVoxel_exported createVoxels_def)
qed


theorem export_import_roundtrip_witness:
  "finiteStore demo \<and> (\<forall>c. demoGetHex c < 16777216) \<and>
   length (voxels (handleJsonImport noNumber demo (Inr (getJsonData demoGetHex demo)) demoRnd)) = 3 \<and>
   v_x (voxels (handleJsonImport noNumber demo (Inr (getJsonData demoGetHex demo)) demoRnd) ! 1) = Fin 1 \<and>
   v_y (voxels (handleJsonImport noNumber demo (Inr (getJsonData demoGetHex demo)) demoRnd) ! 1) = Fin 5 \<and>
   v_stepIndex (voxels (handleJsonImport noNumber demo (Inr (getJsonData demoGetHex demo)) demoRnd) ! 1) = Fin 1 \<and>
   v_color (voxels (handleJsonImport noNumber demo (Inr (getJsonData demoGetHex demo)) demoRnd) ! 1) =
     OffsetHSL (NewColor (Fin 65280)) 0 0 (Fin (demoRnd 1) * Fin 0.05 - Fin 0.025)"
proof -
  have b: "\<forall>c. demoGetHex c < 16777216" using demoGetHex_bound by blast
  have l: "length (voxels demo) = 3" "(1 :: nat) < 3" using demo_length by simp_all
  have v: "v_x (voxels demo ! 1) = Fin 1" "v_y (voxels demo ! 1) = Fin 5"
    "v_stepIndex (voxels demo ! 1) = Fin 1" "real (demoGetHex (v_color (voxels demo ! 1))) = 65280"
    unfolding demo_voxel1 by simp_all
  show ?thesis
    using export_import_roundtrip [of demo demoGetHex noNumber demo demoRnd] demo_finite b l v
    by simp
qed

text \<open>
  Claim C7 as stated fails for the store \<open>infStore\<close>: its voxel has \<open>x = Infinity\<close>, which
  \<^verbatim>\<open>JSON.stringify\<close> writes as \<^verbatim>\<open>null\<close> and the import reads back as 0.
\<close>

theorem infinite_coordinate_not_restored:
  "length (voxels infStore) = 1 \<and> v_x (voxels infStore ! 0) = PInf \<and>
   length (voxels (handleJsonImport noNumber infStore (Inr (getJsonData demoGetHex infStore)) demoRnd)) = 1 \<and>
   v_x (voxels (handleJsonImport noNumber infStore (Inr (getJsonData demoGetHex infStore)) demoRnd) ! 0) = Fin 0"
proof -
  let ?j = "JObj [(''x'', JNum PInf)]"
  define d where "d = \<lparr> vd_x = orZero (Number noNumber (field ?j ''x'')),
           vd_y = orZero (Number noNumber (field ?j ''y'')),
           vd_z = orZero (Number noNumber (field ?j ''z'')),
           vd_color = importColor (colorValue ?j),
           vd_stepIndex =
             Some (case field ?j ''stepIndex'' of None \<Rightarrow> Fin (- 1) | Some j \<Rightarrow> Number noNumber (Some j)) \<rparr>"
  have "importEntry noNumber ?j = Inr d"
    unfolding d_def by (rule importEntry_nonnull) simp
  then have s: "voxels infStore = createVoxels [d] demoRnd"
    by (simp add: infStore_def handleJsonImport_def importVoxelData_def loadInitialModel_def
        onStateChange_def onCountChange_def Let_def)
  have dx: "vd_x d = PInf"
    by (simp add: d_def field_def orZero_def truthy_num_def)
  have a: "length (voxels infStore) = 1" "v_x (voxels infStore ! 0) = PInf"
    unfolding s using dx by (simp_all add: createVoxels_def createVoxel_def)
  let ?k = "voxelJson demoGetHex (voxels infStore ! 0)"
  define d2 where "d2 = \<lparr> vd_x = orZero (Number noNumber (field ?k ''x'')),
           vd_y = orZero (Number noNumber (field ?k ''y'')),
           vd_z = orZero (Number noNumber (field ?k ''z'')),
           vd_color = importColor (colorValue ?k),
           vd_stepIndex =
             Some (case field ?k ''stepIndex'' of None \<Rightarrow> Fin (- 1) | Some j \<Rightarrow> Number noNumber (Some j)) \<rparr>"
  have e2: "importEntry noNumber ?k = Inr d2"
    unfolding d2_def by (rule importEntry_nonnull) (simp add: voxelJson_def)
  have vs: "voxels infStore = [voxels infStore ! 0]"
    using a(1) by (cases "voxels infStore") simp_all
  have g: "getJsonData demoGetHex infStore = JArr [?k]"
    unfolding getJsonData_def by (subst vs) simp
  have s2: "voxels (handleJsonImport noNumber infStore (Inr (getJsonData demoGetHex infStore)) demoRnd) =
            createVoxels [d2] demoRnd"
    unfolding g using e2
    by (simp add: handleJsonImport_def importVoxelData_def loadInitialModel_def
        onStateChange_def onCountChange_def Let_def)
  have "field ?k ''x'' = Some JNull"
    using a(2) by (simp add: voxelJson_def field_def stringifyNumber_def)
  then have dx2: "vd_x d2 = Fin 0"
    by (simp add: d2_def orZero_def truthy_num_def)
  show ?thesis
    unfolding s2 using a dx2 by (simp add: createVoxels_def createVoxel_def)
qed

end
